theory Spec2Isabelle
  imports Complex_Main "HOL-Library.Multiset" "HOL-Library.Log_Nat"
begin

section \<open>SpeechWorks: trial engine, session lifecycle and view handoff\<close>

text \<open>
  The development embeds three parts of the AngularJS front end:
  the trial loop of \<^verbatim>\<open>ActivitiesController\<close> (\<^verbatim>\<open>startActivity\<close>,
  \<^verbatim>\<open>nextWord\<close>, \<^verbatim>\<open>recordResponse\<close>, \<^verbatim>\<open>finishActivity\<close>), the
  hand-over of a practice request through \<^verbatim>\<open>$rootScope.pendingActivity\<close> and
  \<^verbatim>\<open>$rootScope.returnToSessionId\<close>, and the status logic of
  \<^verbatim>\<open>SessionsController\<close>.

  Conventions. A JavaScript object is a record, \<^verbatim>\<open>null\<close>/\<^verbatim>\<open>undefined\<close> is
  \<open>None\<close>. Database identifiers and the trial counters of the view are natural
  numbers (the counters start at 0 and are only incremented). A value that a
  response of the server carries and that the code tests for truthiness is a
  \<open>js_value\<close>. Mutation of a scope is explicit state passing. What a handler does
  to the outside (toasts, API requests, timers, and the two writes the hand-over
  protocol is about) is returned as a list of effects in program order. A handler
  that sends a request ends there; what happens when the answer arrives is a
  function of its own (one for \<^verbatim>\<open>then\<close>, one for \<^verbatim>\<open>catch\<close>), applied to the state
  of that later moment and to the variables the callback captured.
\<close>

subsection \<open>Data\<close>

record trialItem =
  word :: string
  phonetic :: string
  position :: "string option"

record activity =
  a_id :: nat
  a_name :: string
  a_category :: string

record client =
  c_id :: nat
  c_first_name :: string
  c_last_name :: string

text \<open>
  A date value as the controllers see it: falsy (empty string, \<^verbatim>\<open>null\<close>,
  \<^verbatim>\<open>undefined\<close>), a truthy value that \<^verbatim>\<open>new Date\<close> cannot parse, or a value that
  parses to an instant in milliseconds since the epoch.
\<close>

datatype js_date = DateMissing | DateInvalid | DateAt int

text \<open>
  A JavaScript value as a JSON response carries it or as a function hands it back:
  \<^verbatim>\<open>undefined\<close> (also a missing field), \<^verbatim>\<open>null\<close>, a boolean, a finite number,
  a string, or an object or array, of which the string that its conversion to a
  primitive gives is kept.
\<close>

datatype js_value =
  Undefined | Null | JsBool bool | JsNumber rat | JsString string | JsObject string

text \<open>Truthiness, as \<^verbatim>\<open>!x\<close> and \<^verbatim>\<open>if (x)\<close> test it.\<close>

fun truthy :: "js_value \<Rightarrow> bool" where
  "truthy Undefined = False"
| "truthy Null = False"
| "truthy (JsBool b) = b"
| "truthy (JsNumber n) = (n \<noteq> 0)"
| "truthy (JsString s) = (s \<noteq> [])"
| "truthy (JsObject s) = True"

text \<open>
  The comparison \<^verbatim>\<open>x > 0\<close>, which first turns \<open>x\<close> into a number:
  \<^verbatim>\<open>undefined\<close> is \<^verbatim>\<open>NaN\<close>, \<^verbatim>\<open>null\<close> is 0, \<^verbatim>\<open>true\<close> is 1, and a string
  (an object's string likewise) is what the runtime's conversion of strings makes
  of it. That conversion is the parameter \<open>stringToNumber\<close>, with \<open>None\<close> for
  \<^verbatim>\<open>NaN\<close>.
\<close>

fun js_gt_zero :: "(string \<Rightarrow> rat option) \<Rightarrow> js_value \<Rightarrow> bool" where
  "js_gt_zero stringToNumber Undefined = False"
| "js_gt_zero stringToNumber Null = False"
| "js_gt_zero stringToNumber (JsBool b) = b"
| "js_gt_zero stringToNumber (JsNumber n) = (0 < n)"
| "js_gt_zero stringToNumber (JsString s) =
     (case stringToNumber s of Some n \<Rightarrow> 0 < n | None \<Rightarrow> False)"
| "js_gt_zero stringToNumber (JsObject s) =
     (case stringToNumber s of Some n \<Rightarrow> 0 < n | None \<Rightarrow> False)"

record sessionActivity =
  sa_id :: nat
  sa_activity_id :: nat
  sa_activity :: "activity option"
  trials_attempted :: js_value
  trials_correct :: js_value
  accuracy_percentage :: "rat option"

record session =
  s_id :: nat
  s_client_id :: nat
  s_status :: "string option"
  s_session_date :: js_date
  s_duration_minutes :: int
  assignedActivities :: "sessionActivity list option"

text \<open>The object stored in \<^verbatim>\<open>$rootScope.pendingActivity\<close>.\<close>

record pending =
  p_activity :: activity
  p_client :: "client option"
  p_session :: "session option"
  p_sessionActivityRecord :: "sessionActivity option"

record rootScope =
  pendingActivity :: "pending option"
  returnToSessionId :: "nat option"
  currentView :: string

text \<open>The scope of \<^verbatim>\<open>ActivitiesController\<close>.\<close>

record activitiesScope =
  activities :: "activity list"
  selectedCategory :: string
  showActivitySession :: bool
  selectedActivity :: "activity option"
  activityClient :: "client option"
  activityWords :: "trialItem list"
  currentWord :: "trialItem option"
  currentWordIndex :: nat
  currentTrial :: nat
  totalTrials :: nat
  trialsCorrect :: nat
  sourceSession :: "session option"
  sourceSessionActivityRecord :: "sessionActivity option"

subsection \<open>Trial engine\<close>

definition resetActivityState :: "activitiesScope \<Rightarrow> activitiesScope" where
  "resetActivityState sc =
     sc\<lparr>currentWordIndex := 0, currentTrial := 0, trialsCorrect := 0, currentWord := None\<rparr>"

text \<open>
  \<^verbatim>\<open>shuffleWords\<close> runs \<^verbatim>\<open>for (i = length - 1; i > 0; i--)\<close> and swaps
  position \<open>i\<close> with position \<^verbatim>\<open>floor(random() * (i + 1))\<close>. The random source is
  the parameter \<open>rnd\<close>: \<open>rnd i mod (i + 1)\<close> is the index drawn in the pass for
  \<open>i\<close>, any index from \<open>0\<close> to \<open>i\<close>.
\<close>

fun shuffle_from :: "(nat \<Rightarrow> nat) \<Rightarrow> nat \<Rightarrow> 'a list \<Rightarrow> 'a list" where
  "shuffle_from rnd 0 ws = ws"
| "shuffle_from rnd (Suc k) ws =
     (let i = Suc k;
          j = rnd i mod (i + 1);
          temp = ws ! i
      in shuffle_from rnd k (ws[i := ws ! j, j := temp]))"

definition shuffleWords :: "(nat \<Rightarrow> nat) \<Rightarrow> activitiesScope \<Rightarrow> activitiesScope" where
  "shuffleWords rnd sc =
     sc\<lparr>activityWords := shuffle_from rnd (length (activityWords sc) - 1) (activityWords sc)\<rparr>"

definition nextWord :: "activitiesScope \<Rightarrow> activitiesScope" where
  "nextWord sc =
     (if currentWordIndex sc < length (activityWords sc) \<and> currentTrial sc < totalTrials sc
      then sc\<lparr>currentWord := Some (activityWords sc ! currentWordIndex sc),
              currentWordIndex := currentWordIndex sc + 1\<rparr>
      else sc\<lparr>currentWord := None\<rparr>)"

definition startActivity :: "(nat \<Rightarrow> nat) \<Rightarrow> activitiesScope \<Rightarrow> activitiesScope" where
  "startActivity rnd sc =
     nextWord (shuffleWords rnd (sc\<lparr>totalTrials := min (length (activityWords sc)) 10\<rparr>))"

text \<open>
  \<^verbatim>\<open>recordResponse\<close> has a bare \<^verbatim>\<open>return;\<close> in its guard and no
  \<^verbatim>\<open>return\<close> at its end: the caller gets \<^verbatim>\<open>undefined\<close> on both paths.
\<close>

definition recordResponse :: "bool \<Rightarrow> activitiesScope \<Rightarrow> activitiesScope \<times> js_value" where
  "recordResponse isCorrect sc =
     (if currentTrial sc \<ge> totalTrials sc then (sc, Undefined)
      else
        let sc1 = sc\<lparr>currentTrial := currentTrial sc + 1\<rparr>;
            sc2 = (if isCorrect then sc1\<lparr>trialsCorrect := trialsCorrect sc1 + 1\<rparr> else sc1)
        in if currentTrial sc2 < totalTrials sc2 then (nextWord sc2, Undefined)
           else (sc2\<lparr>currentWord := None\<rparr>, Undefined))"

text \<open>A series of button presses, each a call of \<^verbatim>\<open>recordResponse\<close>.\<close>

fun recordResponses :: "bool list \<Rightarrow> activitiesScope \<Rightarrow> activitiesScope" where
  "recordResponses [] sc = sc"
| "recordResponses (b # bs) sc = recordResponses bs (fst (recordResponse b sc))"

text \<open>\<^verbatim>\<open>selectActivityClient\<close> and \<^verbatim>\<open>resetActivity\<close>: reset, then start.\<close>

definition selectActivityClient :: "(nat \<Rightarrow> nat) \<Rightarrow> client \<Rightarrow> activitiesScope \<Rightarrow> activitiesScope" where
  "selectActivityClient rnd cl sc =
     startActivity rnd (resetActivityState (sc\<lparr>activityClient := Some cl\<rparr>))"

definition resetActivity :: "(nat \<Rightarrow> nat) \<Rightarrow> activitiesScope \<Rightarrow> activitiesScope" where
  "resetActivity rnd sc = startActivity rnd (resetActivityState sc)"

definition closeActivitySession :: "activitiesScope \<Rightarrow> activitiesScope" where
  "closeActivitySession sc =
     resetActivityState
       (sc\<lparr>showActivitySession := False, selectedActivity := None, activityClient := None,
           sourceSession := None, sourceSessionActivityRecord := None\<rparr>)"

text \<open>The invariant of a run: the counters stay within their bounds.\<close>

definition trial_inv :: "activitiesScope \<Rightarrow> bool" where
  "trial_inv sc \<longleftrightarrow>
     currentTrial sc \<le> totalTrials sc \<and> currentWordIndex sc \<le> length (activityWords sc)"

subsection \<open>Effects\<close>

text \<open>
  A message is kept as the template the source concatenates, with the interpolated
  values as arguments; how a number is printed (\<^verbatim>\<open>toFixed\<close>,
  \<^verbatim>\<open>toLocaleTimeString\<close>) is not part of the model. A number in a message or in
  a request is the exact value of the double that JavaScript holds.
\<close>

datatype message =
    Plain string
  | ActivityStartedFor string string
  | ActivityCompleted rat
  | ActivityCompletedNotSaved rat
  | AlreadyCompleted rat
  | SessionMustBeInProgress
  | FailedToUpdateSession
  | CannotStartSession js_date
  | StatusUpdatedTo string
  | ActivityNotes string nat nat
  | CompletedNotes rat

datatype toast_level = ToastSuccess | ToastInfo | ToastError

record progressData =
  pd_client_id :: nat
  pd_category :: string
  pd_accuracy_percentage :: rat
  pd_trials_total :: nat
  pd_notes :: message

record activityUpdate =
  au_trials_attempted :: nat
  au_trials_correct :: nat
  au_notes :: message

record sessionUpdate =
  su_duration_minutes :: "int option"
  su_session_date :: "js_date option"
  su_status :: "string option"

datatype api_request =
    CreateProgressRecord progressData
  | UpdateSessionActivity nat nat activityUpdate
  | UpdateSession nat sessionUpdate
  | CreateSession "int option" "int option" js_date
  | StartSession nat

text \<open>The callbacks given to \<^verbatim>\<open>$timeout\<close>.\<close>

datatype deferred = ReturnToSessions nat | GoToActivities | CheckPending

datatype effect =
    Toast toast_level message
  | Api api_request
  | Timeout nat deferred
  | EngineStarted
  | MailboxCleared
  | LoadSessions
  | ConsoleError
  | TypeError

text \<open>
  \<open>EngineStarted\<close> marks a call of \<^verbatim>\<open>startActivity()\<close> made to open a handed-over
  activity, \<open>MailboxCleared\<close> the assignment \<^verbatim>\<open>$rootScope.pendingActivity = null\<close>.
\<close>

record world =
  root :: rootScope
  scope :: activitiesScope
  trace :: "effect list"

definition emit :: "effect list \<Rightarrow> world \<Rightarrow> world" where
  "emit es w = w\<lparr>trace := trace w @ es\<rparr>"

subsection \<open>Strings\<close>

text \<open>
  \<^verbatim>\<open>toLowerCase\<close> and the pattern \<^verbatim>\<open>/[_\s]/g\<close> on ASCII text, which is what the
  status and category names are.
\<close>

definition lower_char :: "char \<Rightarrow> char" where
  "lower_char c =
     (case map_of (zip ''ABCDEFGHIJKLMNOPQRSTUVWXYZ'' ''abcdefghijklmnopqrstuvwxyz'') c of
        Some l \<Rightarrow> l
      | None \<Rightarrow> c)"

definition toLowerCase :: "string \<Rightarrow> string" where
  "toLowerCase s = map lower_char s"

definition is_underscore_or_space :: "char \<Rightarrow> bool" where
  "is_underscore_or_space c \<longleftrightarrow>
     c \<in> set [CHR ''_'', CHR '' '', CHR 0x09, CHR 0x0A, CHR 0x0B, CHR 0x0C, CHR 0x0D]"

definition strip_underscore_space :: "string \<Rightarrow> string" where
  "strip_underscore_space s = filter (\<lambda>c. \<not> is_underscore_or_space c) s"

subsection \<open>Activities view: catalog and hand-over\<close>

definition sampleActivities :: "activity list" where
  "sampleActivities =
     [\<lparr>a_id = 1, a_name = ''S Sound Practice - Initial Position'', a_category = ''ARTICULATION''\<rparr>,
      \<lparr>a_id = 2, a_name = ''R Sound Practice - Vocalic R'', a_category = ''ARTICULATION''\<rparr>,
      \<lparr>a_id = 3, a_name = ''L Sound Practice - All Positions'', a_category = ''ARTICULATION''\<rparr>,
      \<lparr>a_id = 4, a_name = ''TH Sound Discrimination'', a_category = ''ARTICULATION''\<rparr>,
      \<lparr>a_id = 5, a_name = ''Naming Common Objects'', a_category = ''LANGUAGE''\<rparr>,
      \<lparr>a_id = 6, a_name = ''Following Directions'', a_category = ''LANGUAGE''\<rparr>,
      \<lparr>a_id = 7, a_name = ''Sentence Building'', a_category = ''LANGUAGE''\<rparr>,
      \<lparr>a_id = 8, a_name = ''Easy Onset & Slow Speech'', a_category = ''FLUENCY''\<rparr>,
      \<lparr>a_id = 9, a_name = ''Voice Projection Exercises'', a_category = ''VOICE''\<rparr>,
      \<lparr>a_id = 10, a_name = ''Minimal Pairs - Final Consonants'', a_category = ''PHONOLOGY''\<rparr>,
      \<lparr>a_id = 11, a_name = ''Conversation Skills'', a_category = ''PRAGMATICS''\<rparr>]"

definition getSampleActivities :: "activitiesScope \<Rightarrow> activity list" where
  "getSampleActivities sc =
     (if selectedCategory sc \<noteq> []
      then filter (\<lambda>a. toLowerCase (a_category a) = toLowerCase (selectedCategory sc)) sampleActivities
      else sampleActivities)"

text \<open>
  The two continuations of \<^verbatim>\<open>loadActivities\<close>, run when the request for the
  catalog comes back: \<open>Some data\<close> is a response, \<open>None\<close> a failed request. Both
  schedule a check of the mailbox 100 ms later.
\<close>

definition activitiesLoaded :: "activity list option \<Rightarrow> world \<Rightarrow> world" where
  "activitiesLoaded response w =
     (let sc = scope w;
          loaded = (case response of
                      Some data \<Rightarrow> if length data = 0 then getSampleActivities sc else data
                    | None \<Rightarrow> getSampleActivities sc)
      in emit [Timeout 100 CheckPending] (w\<lparr>scope := sc\<lparr>activities := loaded\<rparr>\<rparr>))"

text \<open>
  The word table of \<^verbatim>\<open>getActivityWords\<close> is the parameter \<open>words\<close> of the
  functions below: no property here depends on which words an activity has.
  \<open>rnd\<close> is the random source of the shuffle.
\<close>

definition checkPendingActivity ::
  "(activity \<Rightarrow> trialItem list) \<Rightarrow> (nat \<Rightarrow> nat) \<Rightarrow> world \<Rightarrow> world" where
  "checkPendingActivity words rnd w =
     (case pendingActivity (root w) of
        None \<Rightarrow> w
      | Some pend \<Rightarrow>
          if length (activities (scope w)) > 0 then
            (case find (\<lambda>a. a_id a = a_id (p_activity pend)) (activities (scope w)) of
               None \<Rightarrow> w
             | Some act \<Rightarrow>
                 (case p_client pend of
                    None \<Rightarrow> w
                  | Some cl \<Rightarrow>
                      let sc1 = (scope w)\<lparr>sourceSession := p_session pend,
                                  sourceSessionActivityRecord := p_sessionActivityRecord pend\<rparr>;
                          sc2 = sc1\<lparr>selectedActivity := Some act, activityWords := words act,
                                  showActivitySession := True\<rparr>;
                          sc3 = resetActivityState sc2;
                          sc4 = startActivity rnd (sc3\<lparr>activityClient := Some cl\<rparr>);
                          w1 = emit [EngineStarted] (w\<lparr>scope := sc4\<rparr>);
                          w2 = emit [MailboxCleared] (w1\<lparr>root := (root w1)\<lparr>pendingActivity := None\<rparr>\<rparr>)
                      in emit [Toast ToastSuccess (ActivityStartedFor (c_first_name cl) (c_last_name cl))] w2))
          else w)"

text \<open>
  \<^verbatim>\<open>openActivityForClient\<close>, the handler behind the event
  \<^verbatim>\<open>openActivityWithClient\<close>: the request comes as arguments, and the mailbox is
  cleared all the same once the activity is open.
\<close>

definition openActivityForClient ::
  "(activity \<Rightarrow> trialItem list) \<Rightarrow> (nat \<Rightarrow> nat) \<Rightarrow>
   nat \<Rightarrow> client option \<Rightarrow> session option \<Rightarrow> sessionActivity option \<Rightarrow> world \<Rightarrow> world" where
  "openActivityForClient words rnd activityId cl sess sessionActivityRecord w =
     (case find (\<lambda>a. a_id a = activityId) (activities (scope w)) of
        None \<Rightarrow> w
      | Some act \<Rightarrow>
          (case cl of
             None \<Rightarrow> w
           | Some c \<Rightarrow>
               let sc1 = (scope w)\<lparr>sourceSession := sess,
                           sourceSessionActivityRecord := sessionActivityRecord\<rparr>;
                   sc2 = sc1\<lparr>selectedActivity := Some act, activityWords := words act,
                           showActivitySession := True\<rparr>;
                   sc3 = resetActivityState sc2;
                   sc4 = startActivity rnd (sc3\<lparr>activityClient := Some c\<rparr>);
                   w1 = emit [EngineStarted] (w\<lparr>scope := sc4\<rparr>);
                   w2 = emit [MailboxCleared] (w1\<lparr>root := (root w1)\<lparr>pendingActivity := None\<rparr>\<rparr>)
               in emit [Toast ToastSuccess (ActivityStartedFor (c_first_name c) (c_last_name c))] w2))"

text \<open>The listener of the watch on \<^verbatim>\<open>$rootScope.pendingActivity\<close>.\<close>

definition watchPendingActivity ::
  "(activity \<Rightarrow> trialItem list) \<Rightarrow> (nat \<Rightarrow> nat) \<Rightarrow> world \<Rightarrow> world" where
  "watchPendingActivity words rnd w =
     (if pendingActivity (root w) \<noteq> None \<and> length (activities (scope w)) > 0
      then checkPendingActivity words rnd w
      else w)"

text \<open>
  The mechanisms that look at the mailbox: the check scheduled by the catalog load,
  the four checks scheduled at start-up (after 300, 600, 1000 and 1500 ms), and the
  watch. An event of the Activities view is one of them firing, or the catalog
  request coming back.
\<close>

datatype mechanism = PostLoadCheck | Retry nat | Watch

definition retryDelays :: "nat list" where
  "retryDelays = [300, 600, 1000, 1500]"

definition startupChecks :: "mechanism list" where
  "startupChecks = map Retry retryDelays"

fun fire :: "(activity \<Rightarrow> trialItem list) \<Rightarrow> (nat \<Rightarrow> nat) \<Rightarrow> mechanism \<Rightarrow> world \<Rightarrow> world" where
  "fire words rnd PostLoadCheck w = checkPendingActivity words rnd w"
| "fire words rnd (Retry d) w = checkPendingActivity words rnd w"
| "fire words rnd Watch w = watchPendingActivity words rnd w"

fun fireAll :: "(activity \<Rightarrow> trialItem list) \<Rightarrow> (nat \<Rightarrow> nat) \<Rightarrow> mechanism list \<Rightarrow> world \<Rightarrow> world" where
  "fireAll words rnd [] w = w"
| "fireAll words rnd (m # ms) w = fireAll words rnd ms (fire words rnd m w)"

definition engineStarts :: "world \<Rightarrow> nat" where
  "engineStarts w = count_list (trace w) EngineStarted"

text \<open>
  The race of the hand-over: mechanisms \<open>pre\<close> fire while the catalog request is
  still out, the request comes back with \<open>response\<close>, and then the mechanisms
  \<open>mid\<close>, the check the load scheduled, and the mechanisms \<open>post\<close> fire, in this
  order. The three lists are arbitrary, so every timing of the start-up checks and of
  the watch against the load is covered.
\<close>

definition handoffRun ::
  "(activity \<Rightarrow> trialItem list) \<Rightarrow> (nat \<Rightarrow> nat) \<Rightarrow> mechanism list \<Rightarrow> activity list option \<Rightarrow>
   mechanism list \<Rightarrow> mechanism list \<Rightarrow> world \<Rightarrow> world" where
  "handoffRun words rnd pre response mid post w =
     fireAll words rnd (mid @ PostLoadCheck # post)
       (activitiesLoaded response (fireAll words rnd pre w))"

subsection \<open>Numbers\<close>

text \<open>
  A finite double is held by its exact value, a rational number. \<open>to_double\<close> rounds a
  rational to the nearest double, ties to the even significand: the spacing of the
  doubles around \<open>x\<close> is \<open>2 ^ (e - 52)\<close>, where \<open>2 ^ e \<le> \<bar>x\<bar> < 2 ^ (e + 1)\<close>, and
  is never finer than \<open>2 ^ -1074\<close>. Every operation of JavaScript on numbers is the
  exact operation followed by this rounding. Overflow to infinity is not modelled;
  it needs a magnitude of \<open>2 ^ 1024\<close>, which no quotient or product of counters
  below \<open>2 ^ 53\<close> reaches.
\<close>

definition pow2 :: "int \<Rightarrow> rat" where
  "pow2 e = (if 0 \<le> e then 2 ^ nat e else 1 / 2 ^ nat (- e))"

definition round_half_even :: "rat \<Rightarrow> int" where
  "round_half_even y =
     (let f = \<lfloor>y\<rfloor>; r = y - of_int f
      in if r < 1 / 2 then f else if 1 / 2 < r then f + 1 else if even f then f else f + 1)"

definition exponent_of :: "rat \<Rightarrow> int" where
  "exponent_of x =
     (let (p, q) = quotient_of \<bar>x\<bar>; k = bitlen p - bitlen q
      in if pow2 k \<le> \<bar>x\<bar> then k else k - 1)"

definition to_double :: "rat \<Rightarrow> rat" where
  "to_double x =
     (if x = 0 then 0
      else let q = max (exponent_of x - 52) (- 1074)
           in of_int (round_half_even (x / pow2 q)) * pow2 q)"

definition js_divide :: "rat \<Rightarrow> rat \<Rightarrow> rat" where
  "js_divide a b = to_double (a / b)"

definition js_times :: "rat \<Rightarrow> rat \<Rightarrow> rat" where
  "js_times a b = to_double (a * b)"

text \<open>
  \<open>js_divide\<close> is used with a divisor that is not 0 only: the one division of the
  code is behind a test of its divisor.
\<close>

subsection \<open>Activities view: finishing a run\<close>

text \<open>
  \<^verbatim>\<open>finishActivity\<close> computes the accuracy, builds the progress record, keeps the
  source session and its assignment in local variables and posts the record. It
  returns there, with the view still open. The callbacks of the post are
  \<open>progressSaved\<close> and \<open>progressFailed\<close>; they get the captured variables as a
  \<open>finishClosure\<close> and read \<^verbatim>\<open>$scope.currentTrial\<close> and \<^verbatim>\<open>$scope.trialsCorrect\<close> from
  the scope as it is when the answer arrives. Reading
  \<^verbatim>\<open>selectedActivity.category\<close> with no activity selected throws; the date stamp of
  the progress record is left out.
\<close>

definition accuracyOf :: "activitiesScope \<Rightarrow> rat" where
  "accuracyOf sc =
     js_times (js_divide (of_nat (trialsCorrect sc)) (of_nat (currentTrial sc))) 100"

record finishClosure =
  fc_accuracy :: rat
  fc_sourceSession :: "session option"
  fc_sourceSessionActivityRecord :: "sessionActivity option"

definition finishActivity :: "world \<Rightarrow> world \<times> finishClosure option" where
  "finishActivity w =
     (let sc = scope w in
      if activityClient sc = None \<or> currentTrial sc = 0
      then (w\<lparr>scope := closeActivitySession sc\<rparr>, None)
      else
        (case selectedActivity sc of
           None \<Rightarrow> (emit [TypeError] w, None)
         | Some act \<Rightarrow>
             let accuracy = accuracyOf sc;
                 progress = \<lparr>pd_client_id = c_id (the (activityClient sc)),
                             pd_category = toLowerCase (a_category act),
                             pd_accuracy_percentage = accuracy,
                             pd_trials_total = currentTrial sc,
                             pd_notes = ActivityNotes (a_name act) (currentTrial sc) (trialsCorrect sc)\<rparr>
             in (emit [Api (CreateProgressRecord progress)] w,
                 Some \<lparr>fc_accuracy = accuracy,
                       fc_sourceSession = sourceSession sc,
                       fc_sourceSessionActivityRecord = sourceSessionActivityRecord sc\<rparr>)))"

definition returnIfFromSession :: "session option \<Rightarrow> world \<Rightarrow> world" where
  "returnIfFromSession src w =
     (case src of
        Some ss \<Rightarrow> emit [Timeout 500 (ReturnToSessions (s_id ss))] w
      | None \<Rightarrow> w)"

text \<open>The \<^verbatim>\<open>then\<close> callback of the post.\<close>

definition progressSaved :: "finishClosure \<Rightarrow> world \<Rightarrow> world" where
  "progressSaved fc w =
     (let w1 = (case (fc_sourceSession fc, fc_sourceSessionActivityRecord fc) of
                  (Some ss, Some r) \<Rightarrow>
                     emit [Api (UpdateSessionActivity (s_id ss) (sa_id r)
                              \<lparr>au_trials_attempted = currentTrial (scope w),
                               au_trials_correct = trialsCorrect (scope w),
                               au_notes = CompletedNotes (fc_accuracy fc)\<rparr>)] w
                | _ \<Rightarrow> w);
          w2 = emit [Toast ToastSuccess (ActivityCompleted (fc_accuracy fc))] w1;
          w3 = w2\<lparr>scope := closeActivitySession (scope w2)\<rparr>
      in returnIfFromSession (fc_sourceSession fc) w3)"

text \<open>The \<^verbatim>\<open>catch\<close> callback of the post.\<close>

definition progressFailed :: "finishClosure \<Rightarrow> world \<Rightarrow> world" where
  "progressFailed fc w =
     (let w1 = emit [ConsoleError, Toast ToastInfo (ActivityCompletedNotSaved (fc_accuracy fc))] w;
          w2 = w1\<lparr>scope := closeActivitySession (scope w1)\<rparr>
      in returnIfFromSession (fc_sourceSession fc) w2)"

text \<open>The \<^verbatim>\<open>catch\<close> callback of \<^verbatim>\<open>updateSessionActivity\<close>: a line on the console.\<close>

definition sessionActivityUpdateFailed :: "world \<Rightarrow> world" where
  "sessionActivityUpdateFailed w = emit [ConsoleError] w"

text \<open>Running a callback of \<^verbatim>\<open>$timeout\<close>.\<close>

definition setView :: "string \<Rightarrow> world \<Rightarrow> world" where
  "setView v w = w\<lparr>root := (root w)\<lparr>currentView := v\<rparr>\<rparr>"

fun runDeferred ::
  "(activity \<Rightarrow> trialItem list) \<Rightarrow> (nat \<Rightarrow> nat) \<Rightarrow> deferred \<Rightarrow> world \<Rightarrow> world" where
  "runDeferred words rnd (ReturnToSessions sid) w =
     setView ''sessions'' (w\<lparr>root := (root w)\<lparr>returnToSessionId := Some sid\<rparr>\<rparr>)"
| "runDeferred words rnd GoToActivities w = setView ''activities'' w"
| "runDeferred words rnd CheckPending w = checkPendingActivity words rnd w"

subsection \<open>Sessions view\<close>

text \<open>
  The listener of the watch on \<^verbatim>\<open>$rootScope.returnToSessionId\<close>. The test
  \<^verbatim>\<open>if (sessionId)\<close> is JavaScript truthiness: \<^verbatim>\<open>null\<close> and \<open>0\<close> fail it.
\<close>

definition watchReturnToSession :: "world \<Rightarrow> world" where
  "watchReturnToSession w =
     (case returnToSessionId (root w) of
        None \<Rightarrow> w
      | Some sid \<Rightarrow>
          if sid = 0 then w
          else
            let w1 = emit [LoadSessions] w;
                w2 = w1\<lparr>root := (root w1)\<lparr>returnToSessionId := None\<rparr>\<rparr>
            in emit [Toast ToastInfo (Plain ''Returned to session'')] w2)"

record sessionForm =
  f_client_id :: "int option"
  f_session_date :: js_date
  f_duration_minutes :: "int option"
  f_status :: string

text \<open>
  In the form the numbers are text; \<open>f_client_id\<close> and \<open>f_duration_minutes\<close> hold
  the integer that \<^verbatim>\<open>parseInt\<close> reads, \<open>None\<close> for \<^verbatim>\<open>NaN\<close>.
\<close>

record sessionsScope =
  sessions :: "session list"
  clients :: "client list"
  allClients :: "client list"
  showSessionModal :: bool
  editingSession :: "session option"
  sessionForm :: sessionForm
  originalSessionDate :: js_date

definition emptyForm :: sessionForm where
  "emptyForm = \<lparr>f_client_id = None, f_session_date = DateMissing,
                 f_duration_minutes = None, f_status = []\<rparr>"

definition closeSessionModal :: "sessionsScope \<Rightarrow> sessionsScope" where
  "closeSessionModal ss =
     ss\<lparr>showSessionModal := False, sessionForm := emptyForm, editingSession := None,
        originalSessionDate := DateMissing\<rparr>"

definition isInProgress :: "session option \<Rightarrow> bool" where
  "isInProgress sess =
     (case sess of
        None \<Rightarrow> False
      | Some s \<Rightarrow>
          (case s_status s of
             None \<Rightarrow> False
           | Some st \<Rightarrow>
               if st = [] then False
               else strip_underscore_space (toLowerCase st) = ''inprogress''))"

text \<open>
  The loop shared by \<^verbatim>\<open>checkSessionAutoComplete\<close> and \<^verbatim>\<open>checkSessionStatuses\<close>:
  it leaves with \<^verbatim>\<open>allCompleted = false\<close> at the first assignment for which
  \<^verbatim>\<open>!trials_attempted || trials_attempted === 0\<close> holds.
\<close>

fun allCompleted :: "sessionActivity list \<Rightarrow> bool" where
  "allCompleted [] = True"
| "allCompleted (sa # rest) =
     (if \<not> truthy (trials_attempted sa) \<or> trials_attempted sa = JsNumber 0 then False
      else allCompleted rest)"

definition statusUpdate :: "string \<Rightarrow> sessionUpdate" where
  "statusUpdate st = \<lparr>su_duration_minutes = None, su_session_date = None, su_status = Some st\<rparr>"

text \<open>
  \<^verbatim>\<open>updateSessionStatus\<close> sends its request and returns. When the answer arrives,
  \<open>sessionStatusUpdated\<close> writes the status and shows the message it was given, or
  \<open>sessionStatusUpdateFailed\<close> writes a line on the console.
\<close>

definition updateSessionStatus :: "session \<Rightarrow> string \<Rightarrow> effect list" where
  "updateSessionStatus s newStatus = [Api (UpdateSession (s_id s) (statusUpdate newStatus))]"

definition sessionStatusUpdated :: "session \<Rightarrow> string \<Rightarrow> message option \<Rightarrow> session \<times> effect list" where
  "sessionStatusUpdated s newStatus msg =
     (s\<lparr>s_status := Some newStatus\<rparr>,
      (case msg of Some m \<Rightarrow> [Toast ToastSuccess m] | None \<Rightarrow> []))"

definition sessionStatusUpdateFailed :: "session \<Rightarrow> session \<times> effect list" where
  "sessionStatusUpdateFailed s = (s, [ConsoleError])"

text \<open>
  The requests that \<^verbatim>\<open>checkSessionAutoComplete\<close> sends for a session; the callback
  of such a request is \<open>autoCompleteAnswered\<close>.
\<close>

definition checkSessionAutoComplete :: "session \<Rightarrow> effect list" where
  "checkSessionAutoComplete s =
     (if s_status s = Some ''in_progress'' \<and>
         (case assignedActivities s of None \<Rightarrow> False | Some sas \<Rightarrow> length sas > 0)
      then
        if allCompleted (the (assignedActivities s))
        then updateSessionStatus s ''completed''
        else []
      else [])"

definition autoCompleteAnswered :: "bool \<Rightarrow> session \<Rightarrow> session \<times> effect list" where
  "autoCompleteAnswered ok s =
     (if ok
      then sessionStatusUpdated s ''completed''
             (Some (Plain ''All activities complete! Session marked as complete.''))
      else sessionStatusUpdateFailed s)"

text \<open>
  \<^verbatim>\<open>checkSessionStatuses\<close> runs the same test on every session of the list, in
  order, and sends the requests of all of them before any answer is handled; the
  callback of each request is \<open>statusesAnswered\<close>.
\<close>

fun checkSessionStatuses :: "session list \<Rightarrow> effect list" where
  "checkSessionStatuses [] = []"
| "checkSessionStatuses (s # rest) =
     (if s_status s = Some ''in_progress'' \<and>
         (case assignedActivities s of None \<Rightarrow> False | Some sas \<Rightarrow> length sas > 0)
      then
        if allCompleted (the (assignedActivities s))
        then updateSessionStatus s ''completed''
        else []
      else []) @ checkSessionStatuses rest"

definition statusesAnswered :: "bool \<Rightarrow> session \<Rightarrow> session \<times> effect list" where
  "statusesAnswered ok s =
     (if ok
      then sessionStatusUpdated s ''completed''
             (Some (Plain ''All activities completed! Session marked as complete.''))
      else sessionStatusUpdateFailed s)"

text \<open>
  \<^verbatim>\<open>saveSession\<close>. \<open>now\<close> is the clock in milliseconds. A \<^verbatim>\<open>Date\<close> holds an
  instant of at most 8640000000000000 ms either side of the epoch and is invalid
  otherwise; its time is then \<^verbatim>\<open>NaN\<close>, and a comparison with \<^verbatim>\<open>NaN\<close> is false
  either way. A missing date stands for \<^verbatim>\<open>undefined\<close> or the empty string, of which
  \<^verbatim>\<open>new Date\<close> makes an invalid date. The end of the window is computed on
  doubles: where the exact sum is a valid instant, every step is exact (the
  product is an even integer below \<open>2 ^ 54\<close>), and where it is not, the rounded sum
  is not valid either, so the exact sum decides.
  \<open>FailedToUpdateSession\<close> is the error toast of a failed update, which appends the
  server's detail.
\<close>

definition timeClip :: "int \<Rightarrow> int option" where
  "timeClip t = (if \<bar>t\<bar> \<le> 8640000000000000 then Some t else None)"

definition js_or_date :: "js_date \<Rightarrow> js_date \<Rightarrow> js_date" where
  "js_or_date a b = (if a = DateMissing then b else a)"

definition getTime :: "js_date \<Rightarrow> int option" where
  "getTime d = (case d of DateAt t \<Rightarrow> timeClip t | _ \<Rightarrow> None)"

definition sessionEnd :: "int option \<Rightarrow> int option \<Rightarrow> int option" where
  "sessionEnd start minutes =
     (case (start, minutes) of
        (Some t, Some m) \<Rightarrow> timeClip (t + m * 60 * 1000)
      | _ \<Rightarrow> None)"

definition outsideWindow :: "int \<Rightarrow> int option \<Rightarrow> int option \<Rightarrow> bool" where
  "outsideWindow now sessionDate sessionEndTime \<longleftrightarrow>
     (case sessionDate of Some t \<Rightarrow> now < t | None \<Rightarrow> False) \<or>
     (case sessionEndTime of Some e \<Rightarrow> now > e | None \<Rightarrow> False)"

definition saveSession :: "int \<Rightarrow> sessionsScope \<Rightarrow> effect list" where
  "saveSession now ss =
     (let form = sessionForm ss in
      case editingSession ss of
        Some es \<Rightarrow>
          let sessionDateValue =
                js_or_date (f_session_date form) (js_or_date (originalSessionDate ss) (s_session_date es));
              sessionDate = getTime sessionDateValue;
              sessionEndTime = sessionEnd sessionDate (f_duration_minutes form)
          in if f_status form = ''in_progress'' \<and> s_status es \<noteq> Some ''in_progress'' \<and>
                outsideWindow now sessionDate sessionEndTime
             then [Toast ToastError (CannotStartSession sessionDateValue)]
             else
               let updateData =
                     \<lparr>su_duration_minutes = f_duration_minutes form,
                      su_session_date =
                        (if f_session_date form \<noteq> DateMissing then Some (f_session_date form)
                         else if originalSessionDate ss \<noteq> DateMissing then Some (originalSessionDate ss)
                         else None),
                      su_status = (if f_status form \<noteq> [] then Some (f_status form) else None)\<rparr>
               in [Api (UpdateSession (s_id es) updateData)]
      | None \<Rightarrow>
          [Api (CreateSession (f_client_id form) (f_duration_minutes form) (f_session_date form))])"

text \<open>The callbacks of the two requests of \<^verbatim>\<open>saveSession\<close>.\<close>

definition sessionUpdated :: "sessionsScope \<Rightarrow> sessionsScope \<times> effect list" where
  "sessionUpdated ss =
     (closeSessionModal ss, [Toast ToastSuccess (Plain ''Session updated''), LoadSessions])"

definition sessionUpdateFailed :: "sessionsScope \<Rightarrow> sessionsScope \<times> effect list" where
  "sessionUpdateFailed ss = (ss, [ConsoleError, Toast ToastError FailedToUpdateSession])"

definition sessionCreated :: "sessionsScope \<Rightarrow> sessionsScope \<times> effect list" where
  "sessionCreated ss =
     (closeSessionModal ss, [Toast ToastSuccess (Plain ''Session scheduled''), LoadSessions])"

definition sessionCreateFailed :: "sessionsScope \<Rightarrow> sessionsScope \<times> effect list" where
  "sessionCreateFailed ss =
     (ss, [ConsoleError, Toast ToastError (Plain ''Failed to create session'')])"

text \<open>
  The other handlers that ask for a status, each with the callbacks of its
  request: none of them reads the clock.
\<close>

definition startSession :: "session \<Rightarrow> effect list" where
  "startSession s = [Api (StartSession (s_id s))]"

definition sessionStarted :: "effect list" where
  "sessionStarted = [Toast ToastSuccess (Plain ''Session started!''), LoadSessions]"

definition sessionStartFailed :: "effect list" where
  "sessionStartFailed = [Toast ToastError (Plain ''Failed to start session'')]"

definition changeSessionStatus :: "session \<Rightarrow> string \<Rightarrow> effect list" where
  "changeSessionStatus s newStatus = [Api (UpdateSession (s_id s) (statusUpdate newStatus))]"

definition sessionStatusChanged :: "string \<Rightarrow> effect list" where
  "sessionStatusChanged newStatus = [Toast ToastSuccess (StatusUpdatedTo newStatus), LoadSessions]"

definition sessionStatusChangeFailed :: "effect list" where
  "sessionStatusChangeFailed = [Toast ToastError (Plain ''Failed to update status'')]"

text \<open>
  \<^verbatim>\<open>startSession\<close> of \<^verbatim>\<open>DashboardController\<close>; its \<^verbatim>\<open>then\<close> callback writes the
  status itself.
\<close>

definition dashboardStartSession :: "session \<Rightarrow> effect list" where
  "dashboardStartSession s = [Api (StartSession (s_id s))]"

definition dashboardSessionStarted :: "session \<Rightarrow> session \<times> effect list" where
  "dashboardSessionStarted s =
     (s\<lparr>s_status := Some ''in_progress''\<rparr>, [Toast ToastSuccess (Plain ''Session started!'')])"

definition dashboardSessionStartFailed :: "session \<Rightarrow> session \<times> effect list" where
  "dashboardSessionStartFailed s = (s, [Toast ToastError (Plain ''Failed to start session'')])"

text \<open>\<^verbatim>\<open>openActivityFromSession\<close>, the publisher of the hand-over request.\<close>

definition findClient :: "sessionsScope \<Rightarrow> nat \<Rightarrow> client option" where
  "findClient ss cid =
     (case find (\<lambda>c. c_id c = cid) (allClients ss) of
        Some c \<Rightarrow> Some c
      | None \<Rightarrow> find (\<lambda>c. c_id c = cid) (clients ss))"

definition findRecord :: "activity \<Rightarrow> session \<Rightarrow> sessionActivity option \<Rightarrow> sessionActivity option" where
  "findRecord act s sessionActivityRecord =
     (case sessionActivityRecord of
        Some r \<Rightarrow> Some r
      | None \<Rightarrow>
          (case assignedActivities s of
             None \<Rightarrow> None
           | Some sas \<Rightarrow>
               find (\<lambda>sa. sa_activity_id sa = a_id act \<or>
                          (case sa_activity sa of Some a \<Rightarrow> a_id a = a_id act | None \<Rightarrow> False)) sas))"

definition openActivityFromSession ::
  "(string \<Rightarrow> rat option) \<Rightarrow> activity \<Rightarrow> session option \<Rightarrow> sessionActivity option \<Rightarrow>
   sessionsScope \<Rightarrow> rootScope \<Rightarrow> rootScope \<times> effect list" where
  "openActivityFromSession stringToNumber act sess sessionActivityRecord ss r =
     (if \<not> isInProgress sess
      then (r, [Toast ToastInfo SessionMustBeInProgress])
      else
        let s = the sess in
        if (case sessionActivityRecord of
              Some sa \<Rightarrow> js_gt_zero stringToNumber (trials_attempted sa)
            | None \<Rightarrow> False)
        then (r, [Toast ToastInfo
                    (AlreadyCompleted
                       (case accuracy_percentage (the sessionActivityRecord) of
                          Some p \<Rightarrow> p | None \<Rightarrow> 0))])
        else
          (case findClient ss (s_client_id s) of
             None \<Rightarrow> (r, [Toast ToastError (Plain ''Could not find client for this session'')])
           | Some cl \<Rightarrow>
               (r\<lparr>pendingActivity :=
                     Some \<lparr>p_activity = act, p_client = Some cl, p_session = Some s,
                           p_sessionActivityRecord = findRecord act s sessionActivityRecord\<rparr>\<rparr>,
                [Timeout 0 GoToActivities])))"

text \<open>
  The auto-completion decision as the specification words it, for comparison with
  the code: the status is in progress, there is at least one assignment, and every
  assignment has a number of attempted trials that is greater than 0.
\<close>

definition evaluateAutoCompletion_spec :: "session \<Rightarrow> bool" where
  "evaluateAutoCompletion_spec s \<longleftrightarrow>
     s_status s = Some ''in_progress'' \<and>
     (case assignedActivities s of
        None \<Rightarrow> False
      | Some sas \<Rightarrow>
          sas \<noteq> [] \<and>
          list_all (\<lambda>sa. case trials_attempted sa of JsNumber n \<Rightarrow> 0 < n | _ \<Rightarrow> False) sas)"

text \<open>
  The values of \<^verbatim>\<open>trials_attempted\<close> that the application itself produces: the field
  is missing or \<^verbatim>\<open>null\<close>, or it is a number that is not negative.
\<close>

definition isCount :: "js_value \<Rightarrow> bool" where
  "isCount v = (case v of Undefined \<Rightarrow> True | Null \<Rightarrow> True | JsNumber n \<Rightarrow> 0 \<le> n | _ \<Rightarrow> False)"

definition countsOnly :: "session \<Rightarrow> bool" where
  "countsOnly s =
     (case assignedActivities s of
        None \<Rightarrow> True
      | Some sas \<Rightarrow> list_all (\<lambda>sa. isCount (trials_attempted sa)) sas)"

subsection \<open>Sample data\<close>

text \<open>Concrete values on which the theorems below are exercised.\<close>

definition sunWords :: "trialItem list" where
  "sunWords =
     [\<lparr>word = ''sun'', phonetic = ''/sVn/'', position = Some ''initial''\<rparr>,
      \<lparr>word = ''soap'', phonetic = ''/soUp/'', position = Some ''initial''\<rparr>,
      \<lparr>word = ''sand'', phonetic = ''/saend/'', position = Some ''initial''\<rparr>]"

definition twelveWords :: "trialItem list" where
  "twelveWords = sunWords @ sunWords @ sunWords @ sunWords"

definition anna :: client where
  "anna = \<lparr>c_id = 4, c_first_name = ''Anna'', c_last_name = ''Lee''\<rparr>"

definition sSound :: activity where
  "sSound = \<lparr>a_id = 1, a_name = ''S Sound Practice - Initial Position'', a_category = ''ARTICULATION''\<rparr>"

definition freshScope :: activitiesScope where
  "freshScope =
     \<lparr>activities = [], selectedCategory = [], showActivitySession = False,
      selectedActivity = None, activityClient = None, activityWords = [], currentWord = None,
      currentWordIndex = 0, currentTrial = 0, totalTrials = 10, trialsCorrect = 0,
      sourceSession = None, sourceSessionActivityRecord = None\<rparr>"

text \<open>\<open>freshScope\<close> is the scope as the controller initialises it.\<close>

definition firstPick :: "nat \<Rightarrow> nat" where
  "firstPick i = 0"

definition sunWordsOf :: "activity \<Rightarrow> trialItem list" where
  "sunWordsOf a = sunWords"

definition scheduledSession :: session where
  "scheduledSession =
     \<lparr>s_id = 7, s_client_id = 4, s_status = Some ''scheduled'', s_session_date = DateAt 0,
      s_duration_minutes = 30, assignedActivities = None\<rparr>"

definition doneRecord :: sessionActivity where
  "doneRecord =
     \<lparr>sa_id = 21, sa_activity_id = 1, sa_activity = None, trials_attempted = JsNumber 10,
      trials_correct = JsNumber 7, accuracy_percentage = Some 70\<rparr>"

definition openRecord :: sessionActivity where
  "openRecord =
     \<lparr>sa_id = 22, sa_activity_id = 1, sa_activity = None, trials_attempted = JsNumber 0,
      trials_correct = JsNumber 0, accuracy_percentage = Some 0\<rparr>"

definition liveSession :: session where
  "liveSession = scheduledSession\<lparr>s_status := Some ''in_progress''\<rparr>"

definition request :: pending where
  "request = \<lparr>p_activity = sSound, p_client = Some anna, p_session = Some liveSession,
              p_sessionActivityRecord = Some openRecord\<rparr>"

definition unknownActivity :: activity where
  "unknownActivity = \<lparr>a_id = 12, a_name = ''Breathing'', a_category = ''VOICE''\<rparr>"

definition startWorld :: world where
  "startWorld =
     \<lparr>root = \<lparr>pendingActivity = Some request, returnToSessionId = None, currentView = ''activities''\<rparr>,
      scope = freshScope, trace = []\<rparr>"

text \<open>
  \<open>startWorld\<close>: the Activities view has just been created, its catalog is not
  loaded, and a request is already in the mailbox.
\<close>

definition lostWorld :: world where
  "lostWorld =
     startWorld\<lparr>root := (root startWorld)\<lparr>pendingActivity :=
        Some (request\<lparr>p_activity := unknownActivity\<rparr>)\<rparr>\<rparr>"

text \<open>\<open>lostWorld\<close>: the same, with a request for an activity that no catalog lists.\<close>

definition finishedWorld :: world where
  "finishedWorld =
     \<lparr>root = \<lparr>pendingActivity = None, returnToSessionId = None, currentView = ''activities''\<rparr>,
      scope = freshScope\<lparr>activities := sampleActivities, showActivitySession := True,
                selectedActivity := Some sSound, activityClient := Some anna,
                activityWords := twelveWords, currentWordIndex := 10, currentTrial := 10,
                totalTrials := 10, trialsCorrect := 7, sourceSession := Some liveSession,
                sourceSessionActivityRecord := Some openRecord\<rparr>,
      trace = []\<rparr>"

text \<open>
  \<open>finishedWorld\<close>: a run opened from session 7 on twelve words, after ten trials,
  seven of them correct. \<open>finishedClosure\<close> is what \<open>finishActivity\<close> captures there.
  \<open>thirdWorld\<close>: the same run on three words, after three trials, one of them
  correct. \<open>openedWorld\<close>: the run as the hand-over opens it, before any response.
\<close>

definition finishedClosure :: finishClosure where
  "finishedClosure =
     \<lparr>fc_accuracy = 70, fc_sourceSession = Some liveSession,
      fc_sourceSessionActivityRecord = Some openRecord\<rparr>"

definition thirdWorld :: world where
  "thirdWorld =
     finishedWorld\<lparr>scope := (scope finishedWorld)\<lparr>activityWords := sunWords, currentWordIndex := 3,
        currentTrial := 3, totalTrials := 3, trialsCorrect := 1\<rparr>\<rparr>"

definition openedWorld :: world where
  "openedWorld =
     finishedWorld\<lparr>scope := (scope finishedWorld)\<lparr>currentWordIndex := 1, currentTrial := 0,
        trialsCorrect := 0, currentWord := Some (hd twelveWords)\<rparr>\<rparr>"

definition untouchedRecord :: sessionActivity where
  "untouchedRecord = openRecord\<lparr>sa_id := 23, trials_attempted := Undefined\<rparr>"

definition negativeRecord :: sessionActivity where
  "negativeRecord = openRecord\<lparr>sa_id := 24, trials_attempted := JsNumber (- 1)\<rparr>"

definition busySession :: session where
  "busySession = liveSession\<lparr>assignedActivities := Some [doneRecord]\<rparr>"

definition emptyRoot :: rootScope where
  "emptyRoot = \<lparr>pendingActivity = None, returnToSessionId = None, currentView = ''sessions''\<rparr>"

definition sessionsView :: sessionsScope where
  "sessionsView =
     \<lparr>sessions = [busySession], clients = [anna], allClients = [anna], showSessionModal = False,
      editingSession = None, sessionForm = emptyForm, originalSessionDate = DateMissing\<rparr>"

definition editView :: sessionsScope where
  "editView =
     sessionsView\<lparr>sessions := [scheduledSession], showSessionModal := True,
       editingSession := Some scheduledSession,
       sessionForm := \<lparr>f_client_id = Some 4, f_session_date = DateAt 0,
                        f_duration_minutes = Some 30, f_status = ''in_progress''\<rparr>,
       originalSessionDate := DateAt 0\<rparr>"

text \<open>
  \<open>editView\<close>: the edit form of session 7, scheduled at instant 0 for 30 minutes,
  with the status set to in progress. Ten minutes are 600000 ms, forty are 2400000.
\<close>

subsection \<open>Facts about the trial engine\<close>

lemma length_shuffle_from [simp]: "length (shuffle_from rnd k ws) = length ws"
  by (induction k arbitrary: ws) (simp_all add: Let_def)

lemma mset_shuffle_from:
  "k < length ws \<or> k = 0 \<Longrightarrow> mset (shuffle_from rnd k ws) = mset ws"
proof (induction k arbitrary: ws)
  case 0
  show ?case by simp
next
  case (Suc k)
  from Suc.prems have i: "Suc k < length ws" by simp
  have "rnd (Suc k) mod (Suc k + 1) < Suc k + 1" by (rule mod_less_divisor) simp
  with i have j: "rnd (Suc k) mod (Suc k + 1) < length ws" by linarith
  let ?ws = "ws[Suc k := ws ! (rnd (Suc k) mod (Suc k + 1)),
                rnd (Suc k) mod (Suc k + 1) := ws ! Suc k]"
  have "mset ?ws = mset ws" using i j by (simp add: mset_swap)
  moreover have "mset (shuffle_from rnd k ?ws) = mset ?ws"
    using i by (intro Suc.IH) simp
  ultimately show ?case by (simp add: Let_def)
qed

lemma shuffleWords_perm: "mset (activityWords (shuffleWords rnd sc)) = mset (activityWords sc)"
  unfolding shuffleWords_def
  by (cases "activityWords sc") (simp_all add: mset_shuffle_from)

lemma length_shuffleWords [simp]:
  "length (activityWords (shuffleWords rnd sc)) = length (activityWords sc)"
  by (simp add: shuffleWords_def)

lemma shuffleWords_fields [simp]:
  "currentTrial (shuffleWords rnd sc) = currentTrial sc"
  "totalTrials (shuffleWords rnd sc) = totalTrials sc"
  "trialsCorrect (shuffleWords rnd sc) = trialsCorrect sc"
  "currentWordIndex (shuffleWords rnd sc) = currentWordIndex sc"
  by (simp_all add: shuffleWords_def)

lemma nextWord_fields [simp]:
  "currentTrial (nextWord sc) = currentTrial sc"
  "totalTrials (nextWord sc) = totalTrials sc"
  "trialsCorrect (nextWord sc) = trialsCorrect sc"
  "activityWords (nextWord sc) = activityWords sc"
  by (simp_all add: nextWord_def)

lemma nextWord_index_le:
  "currentWordIndex sc \<le> length (activityWords sc) \<Longrightarrow>
   currentWordIndex (nextWord sc) \<le> length (activityWords sc)"
  by (simp add: nextWord_def)

lemma trial_inv_start: "trial_inv (startActivity rnd (resetActivityState sc))"
  by (cases "activityWords sc")
    (simp_all add: trial_inv_def startActivity_def resetActivityState_def nextWord_def shuffleWords_def)

lemma trial_inv_recordResponse: "trial_inv sc \<Longrightarrow> trial_inv (fst (recordResponse b sc))"
  by (auto simp: trial_inv_def recordResponse_def Let_def nextWord_def)

lemma trial_inv_recordResponses: "trial_inv sc \<Longrightarrow> trial_inv (recordResponses bs sc)"
  by (induction bs arbitrary: sc) (simp_all add: trial_inv_recordResponse)

lemma recordResponse_complete: "totalTrials sc \<le> currentTrial sc \<Longrightarrow> recordResponse b sc = (sc, Undefined)"
  by (simp add: recordResponse_def)

subsection \<open>Claims about the trial engine\<close>

text \<open>
  C4. Starting a run sets \<open>totalTrials\<close> to the smaller of the number of items and 10,
  whatever the shuffle draws. With no items the run starts in a defined empty state:
  \<open>totalTrials\<close> is 0, there is no current prompt, no index has moved, and a response
  is ignored. No read of the word list is out of range: \<open>nextWord\<close> reads only below
  the length, and the shuffle does not run on an empty list.
\<close>

theorem startActivity_totalTrials:
  "totalTrials (startActivity rnd sc) = min (length (activityWords sc)) 10 \<and>
   (activityWords sc = [] \<longrightarrow>
      totalTrials (startActivity rnd sc) = 0 \<and>
      currentWord (startActivity rnd sc) = None \<and>
      activityWords (startActivity rnd sc) = [] \<and>
      currentWordIndex (startActivity rnd sc) = currentWordIndex sc \<and>
      recordResponse b (startActivity rnd (resetActivityState sc)) =
        (startActivity rnd (resetActivityState sc), Undefined))"
  by (simp add: startActivity_def nextWord_def shuffleWords_def recordResponse_def
      resetActivityState_def)

theorem startActivity_totalTrials_witness:
  "activityWords freshScope = [] \<and>
   totalTrials (startActivity firstPick freshScope) = 0 \<and>
   currentWord (startActivity firstPick freshScope) = None \<and>
   totalTrials (startActivity firstPick (freshScope\<lparr>activityWords := twelveWords\<rparr>)) = 10"
  using startActivity_totalTrials [of firstPick freshScope True]
    startActivity_totalTrials [of firstPick "freshScope\<lparr>activityWords := twelveWords\<rparr>" True]
  by (simp add: freshScope_def twelveWords_def sunWords_def)

text \<open>
  C5. After any series of \<open>recordResponse\<close> calls on a run that was reset and started,
  the number of completed trials is at most \<open>totalTrials\<close> and the word index is at
  most the number of words. On any state with \<open>currentTrial \<ge> totalTrials\<close> a call
  changes neither \<open>currentTrial\<close> nor \<open>trialsCorrect\<close>.
\<close>

theorem recordResponses_bounded:
  "currentTrial (recordResponses bs (startActivity rnd (resetActivityState sc)))
     \<le> totalTrials (recordResponses bs (startActivity rnd (resetActivityState sc))) \<and>
   currentWordIndex (recordResponses bs (startActivity rnd (resetActivityState sc)))
     \<le> length (activityWords (recordResponses bs (startActivity rnd (resetActivityState sc)))) \<and>
   (totalTrials st \<le> currentTrial st \<longrightarrow>
      currentTrial (fst (recordResponse b st)) = currentTrial st \<and>
      trialsCorrect (fst (recordResponse b st)) = trialsCorrect st)"
proof -
  have "trial_inv (recordResponses bs (startActivity rnd (resetActivityState sc)))"
    by (rule trial_inv_recordResponses) (rule trial_inv_start)
  then show ?thesis
    by (simp add: trial_inv_def recordResponse_complete)
qed

theorem recordResponses_bounded_witness:
  "totalTrials (recordResponses [True, False, True, True]
       (startActivity firstPick (resetActivityState (freshScope\<lparr>activityWords := sunWords\<rparr>))))
     \<le> currentTrial (recordResponses [True, False, True, True]
       (startActivity firstPick (resetActivityState (freshScope\<lparr>activityWords := sunWords\<rparr>)))) \<and>
   currentTrial (recordResponses [True, False, True, True, True]
       (startActivity firstPick (resetActivityState (freshScope\<lparr>activityWords := sunWords\<rparr>)))) = 3 \<and>
   trialsCorrect (recordResponses [True, False, True, True, True]
       (startActivity firstPick (resetActivityState (freshScope\<lparr>activityWords := sunWords\<rparr>)))) = 2"
  using recordResponses_bounded [of "[True, False, True, True]" firstPick
      "freshScope\<lparr>activityWords := sunWords\<rparr>"
      "recordResponses [True, False, True, True]
         (startActivity firstPick (resetActivityState (freshScope\<lparr>activityWords := sunWords\<rparr>)))"
      True]
  by (simp add: freshScope_def sunWords_def startActivity_def resetActivityState_def
      shuffleWords_def nextWord_def recordResponse_def firstPick_def Let_def numeral_3_eq_3)

text \<open>
  C9. A call of \<open>recordResponse\<close> on a complete run is not an error and changes
  nothing. It hands back \<^verbatim>\<open>undefined\<close>, and so does every other call: no return
  value tells the caller that the run was already complete.
\<close>

theorem recordResponse_complete_silent:
  "(totalTrials sc \<le> currentTrial sc \<longrightarrow> recordResponse b sc = (sc, Undefined)) \<and>
   snd (recordResponse b' sc') = Undefined"
  by (simp add: recordResponse_def Let_def)

theorem recordResponse_complete_silent_witness:
  "totalTrials (freshScope\<lparr>totalTrials := 3, currentTrial := 3\<rparr>)
     \<le> currentTrial (freshScope\<lparr>totalTrials := 3, currentTrial := 3\<rparr>) \<and>
   recordResponse True (freshScope\<lparr>totalTrials := 3, currentTrial := 3\<rparr>) =
     (freshScope\<lparr>totalTrials := 3, currentTrial := 3\<rparr>, Undefined)"
  using recordResponse_complete_silent
    [of "freshScope\<lparr>totalTrials := 3, currentTrial := 3\<rparr>" True True freshScope]
  by simp

text \<open>
  The return value of a call on a complete run (3 of 3 trials done) and of a call
  that records a response (1 of 3 done) is the same.
\<close>

theorem recordResponse_status_counterexample:
  "totalTrials (freshScope\<lparr>totalTrials := 3, currentTrial := 3\<rparr>)
     \<le> currentTrial (freshScope\<lparr>totalTrials := 3, currentTrial := 3\<rparr>) \<and>
   currentTrial (freshScope\<lparr>totalTrials := 3, currentTrial := 1\<rparr>)
     < totalTrials (freshScope\<lparr>totalTrials := 3, currentTrial := 1\<rparr>) \<and>
   snd (recordResponse True (freshScope\<lparr>totalTrials := 3, currentTrial := 3\<rparr>)) =
   snd (recordResponse True (freshScope\<lparr>totalTrials := 3, currentTrial := 1\<rparr>)) \<and>
   currentTrial (fst (recordResponse True (freshScope\<lparr>totalTrials := 3, currentTrial := 1\<rparr>))) = 2"
  by (simp add: recordResponse_def Let_def nextWord_def freshScope_def)

subsection \<open>Facts about the hand-over\<close>

lemma resetActivityState_fields [simp]:
  "activities (resetActivityState sc) = activities sc"
  "selectedActivity (resetActivityState sc) = selectedActivity sc"
  "activityClient (resetActivityState sc) = activityClient sc"
  "sourceSession (resetActivityState sc) = sourceSession sc"
  "sourceSessionActivityRecord (resetActivityState sc) = sourceSessionActivityRecord sc"
  "showActivitySession (resetActivityState sc) = showActivitySession sc"
  by (simp_all add: resetActivityState_def)

lemma startActivity_fields [simp]:
  "activities (startActivity rnd sc) = activities sc"
  "selectedActivity (startActivity rnd sc) = selectedActivity sc"
  "activityClient (startActivity rnd sc) = activityClient sc"
  "sourceSession (startActivity rnd sc) = sourceSession sc"
  "sourceSessionActivityRecord (startActivity rnd sc) = sourceSessionActivityRecord sc"
  "showActivitySession (startActivity rnd sc) = showActivitySession sc"
  by (simp_all add: startActivity_def nextWord_def shuffleWords_def)

lemma find_Some_nonempty: "find P xs = Some x \<Longrightarrow> 0 < length xs"
  by (cases xs) simp_all

lemma check_empty_mailbox:
  "pendingActivity (root w) = None \<Longrightarrow> checkPendingActivity words rnd w = w"
  by (simp add: checkPendingActivity_def)

lemma check_unresolved:
  "pendingActivity (root w) = Some pend \<Longrightarrow>
   find (\<lambda>a. a_id a = a_id (p_activity pend)) (activities (scope w)) = None \<or> p_client pend = None \<Longrightarrow>
   checkPendingActivity words rnd w = w"
  by (auto simp: checkPendingActivity_def split: option.splits)

lemma check_not_loaded:
  "activities (scope w) = [] \<Longrightarrow> checkPendingActivity words rnd w = w"
  by (simp add: checkPendingActivity_def split: option.splits)

lemma check_resolved:
  assumes "pendingActivity (root w) = Some pend"
    and "find (\<lambda>a. a_id a = a_id (p_activity pend)) (activities (scope w)) = Some act"
    and "p_client pend = Some cl"
  shows "pendingActivity (root (checkPendingActivity words rnd w)) = None"
    and "trace (checkPendingActivity words rnd w) =
           trace w @ [EngineStarted, MailboxCleared,
                      Toast ToastSuccess (ActivityStartedFor (c_first_name cl) (c_last_name cl))]"
    and "selectedActivity (scope (checkPendingActivity words rnd w)) = Some act"
    and "activityClient (scope (checkPendingActivity words rnd w)) = Some cl"
    and "sourceSession (scope (checkPendingActivity words rnd w)) = p_session pend"
    and "sourceSessionActivityRecord (scope (checkPendingActivity words rnd w)) =
           p_sessionActivityRecord pend"
    and "activities (scope (checkPendingActivity words rnd w)) = activities (scope w)"
  using assms find_Some_nonempty [OF assms(2)]
  by (simp_all add: checkPendingActivity_def Let_def emit_def)

lemma engineStarts_check_resolved:
  assumes "pendingActivity (root w) = Some pend"
    and "find (\<lambda>a. a_id a = a_id (p_activity pend)) (activities (scope w)) = Some act"
    and "p_client pend = Some cl"
  shows "engineStarts (checkPendingActivity words rnd w) = engineStarts w + 1"
  by (simp add: engineStarts_def check_resolved(2) [OF assms])

lemma fire_empty_mailbox: "pendingActivity (root w) = None \<Longrightarrow> fire words rnd m w = w"
  by (cases m) (simp_all add: check_empty_mailbox watchPendingActivity_def)

lemma fire_not_loaded: "activities (scope w) = [] \<Longrightarrow> fire words rnd m w = w"
  by (cases m) (simp_all add: check_not_loaded watchPendingActivity_def)

lemma fireAll_empty_mailbox: "pendingActivity (root w) = None \<Longrightarrow> fireAll words rnd ms w = w"
  by (induction ms) (simp_all add: fire_empty_mailbox)

lemma fireAll_not_loaded: "activities (scope w) = [] \<Longrightarrow> fireAll words rnd ms w = w"
  by (induction ms) (simp_all add: fire_not_loaded)

lemma fire_resolved:
  assumes "pendingActivity (root w) = Some pend"
    and "find (\<lambda>a. a_id a = a_id (p_activity pend)) (activities (scope w)) = Some act"
  shows "fire words rnd m w = checkPendingActivity words rnd w"
  using assms find_Some_nonempty [OF assms(2)]
  by (cases m) (simp_all add: watchPendingActivity_def)

lemma fireAll_resolved:
  assumes "pendingActivity (root w) = Some pend"
    and "find (\<lambda>a. a_id a = a_id (p_activity pend)) (activities (scope w)) = Some act"
    and "p_client pend = Some cl"
  shows "fireAll words rnd (m # ms) w = checkPendingActivity words rnd w"
  by (simp add: fire_resolved [OF assms(1,2)] fireAll_empty_mailbox check_resolved(1) [OF assms])

lemma activitiesLoaded_fields [simp]:
  "root (activitiesLoaded response w) = root w"
  "trace (activitiesLoaded response w) = trace w @ [Timeout 100 CheckPending]"
  by (simp_all add: activitiesLoaded_def emit_def Let_def)

lemma handoffRun_eq:
  assumes "pendingActivity (root w) = Some pend"
    and "activities (scope w) = []"
    and "p_client pend = Some cl"
    and "find (\<lambda>a. a_id a = a_id (p_activity pend))
           (activities (scope (activitiesLoaded response w))) = Some act"
  shows "handoffRun words rnd pre response mid post w =
           checkPendingActivity words rnd (activitiesLoaded response w)"
proof -
  let ?w = "activitiesLoaded response w"
  have p: "pendingActivity (root ?w) = Some pend" using assms(1) by simp
  have pre: "fireAll words rnd pre w = w" by (rule fireAll_not_loaded) (rule assms(2))
  obtain m ms where ms: "mid @ PostLoadCheck # post = m # ms"
    by (cases mid) simp_all
  have "fireAll words rnd (m # ms) ?w = checkPendingActivity words rnd ?w"
    by (rule fireAll_resolved [OF p assms(4) assms(3)])
  then show ?thesis
    unfolding handoffRun_def pre ms .
qed

lemma fireAll_unresolved:
  "pendingActivity (root w) = Some pend \<Longrightarrow>
   find (\<lambda>a. a_id a = a_id (p_activity pend)) (activities (scope w)) = None \<or> p_client pend = None \<Longrightarrow>
   fireAll words rnd ms w = w"
proof (induction ms)
  case Nil
  show ?case by simp
next
  case (Cons m ms)
  have "fire words rnd m w = w"
    using check_unresolved [OF Cons.prems] by (cases m) (simp_all add: watchPendingActivity_def)
  with Cons show ?case by simp
qed

lemma activitiesLoaded_Some:
  "find P cat = Some act \<Longrightarrow> activities (scope (activitiesLoaded (Some cat) w)) = cat"
  by (cases cat) (simp_all add: activitiesLoaded_def emit_def Let_def)

lemma sample_catalog [simp]:
  "activities (scope (activitiesLoaded None startWorld)) = sampleActivities"
  "activities (scope (activitiesLoaded None lostWorld)) = sampleActivities"
  by (simp_all add: activitiesLoaded_def emit_def Let_def getSampleActivities_def
      startWorld_def lostWorld_def freshScope_def)

lemma find_sSound [simp]:
  "find (\<lambda>a. a_id a = a_id sSound) sampleActivities = Some sSound"
  by (simp add: sampleActivities_def sSound_def)

lemma find_unknownActivity [simp]:
  "find (\<lambda>a. a_id a = a_id unknownActivity) sampleActivities = None"
  by (simp add: sampleActivities_def unknownActivity_def)

subsection \<open>Claims about the hand-over\<close>

text \<open>
  C8. With a request in the mailbox, \<open>checkPendingActivity\<close> opens the activity and
  clears the mailbox exactly when the catalog lists the requested activity (so it is
  loaded) and the request names a client. Otherwise it changes nothing, the mailbox
  included, and a check made after a catalog that lists the activity has arrived
  consumes the request. \<open>openActivityForClient\<close> likewise changes nothing when the
  activity or the client is missing.
\<close>

theorem checkPendingActivity_consumes_iff:
  assumes "pendingActivity (root w) = Some pend"
  shows
    "((pendingActivity (root (checkPendingActivity words rnd w)) = None) =
        (find (\<lambda>a. a_id a = a_id (p_activity pend)) (activities (scope w)) \<noteq> None \<and>
         p_client pend \<noteq> None)) \<and>
     ((engineStarts (checkPendingActivity words rnd w) = engineStarts w + 1) =
        (find (\<lambda>a. a_id a = a_id (p_activity pend)) (activities (scope w)) \<noteq> None \<and>
         p_client pend \<noteq> None)) \<and>
     (find (\<lambda>a. a_id a = a_id (p_activity pend)) (activities (scope w)) = None \<or>
      p_client pend = None \<longrightarrow>
        checkPendingActivity words rnd w = w) \<and>
     (find (\<lambda>a. a_id a = a_id (p_activity pend)) (activities (scope w)) = None \<and>
      find (\<lambda>a. a_id a = a_id (p_activity pend)) cat = Some act \<and> p_client pend \<noteq> None \<longrightarrow>
        pendingActivity (root (checkPendingActivity words rnd
           (activitiesLoaded (Some cat) (checkPendingActivity words rnd w)))) = None \<and>
        selectedActivity (scope (checkPendingActivity words rnd
           (activitiesLoaded (Some cat) (checkPendingActivity words rnd w)))) = Some act) \<and>
     (find (\<lambda>a. a_id a = activityId) (activities (scope w)) = None \<or> cl = None \<longrightarrow>
        openActivityForClient words rnd activityId cl sess sessionActivityRecord w = w)"
proof -
  let ?found = "find (\<lambda>a. a_id a = a_id (p_activity pend)) (activities (scope w))"
  have unresolved: "checkPendingActivity words rnd w = w" if "?found = None \<or> p_client pend = None"
    using check_unresolved [OF assms that] .
  have resolved: "pendingActivity (root (checkPendingActivity words rnd w)) = None \<and>
      engineStarts (checkPendingActivity words rnd w) = engineStarts w + 1"
    if "?found \<noteq> None \<and> p_client pend \<noteq> None"
  proof -
    from that obtain a c where ac: "?found = Some a" "p_client pend = Some c" by auto
    show ?thesis
      using check_resolved(1) [OF assms ac] engineStarts_check_resolved [OF assms ac] by simp
  qed
  have c1: "(pendingActivity (root (checkPendingActivity words rnd w)) = None) =
      (?found \<noteq> None \<and> p_client pend \<noteq> None)"
  proof (cases "?found \<noteq> None \<and> p_client pend \<noteq> None")
    case True
    then show ?thesis using resolved by simp
  next
    case False
    then have "checkPendingActivity words rnd w = w" using unresolved by auto
    then show ?thesis using False assms by simp
  qed
  have c2: "(engineStarts (checkPendingActivity words rnd w) = engineStarts w + 1) =
      (?found \<noteq> None \<and> p_client pend \<noteq> None)"
  proof (cases "?found \<noteq> None \<and> p_client pend \<noteq> None")
    case True
    then show ?thesis using resolved by simp
  next
    case False
    then have "checkPendingActivity words rnd w = w" using unresolved by auto
    then show ?thesis using False by simp
  qed
  have c4: "pendingActivity (root (checkPendingActivity words rnd
           (activitiesLoaded (Some cat) (checkPendingActivity words rnd w)))) = None \<and>
        selectedActivity (scope (checkPendingActivity words rnd
           (activitiesLoaded (Some cat) (checkPendingActivity words rnd w)))) = Some act"
    if h: "?found = None \<and>
           find (\<lambda>a. a_id a = a_id (p_activity pend)) cat = Some act \<and> p_client pend \<noteq> None"
  proof -
    from h obtain c where c: "p_client pend = Some c" by auto
    have w1: "checkPendingActivity words rnd w = w" using unresolved h by simp
    have p: "pendingActivity (root (activitiesLoaded (Some cat) w)) = Some pend"
      using assms by simp
    have f: "find (\<lambda>a. a_id a = a_id (p_activity pend))
               (activities (scope (activitiesLoaded (Some cat) w))) = Some act"
    proof -
      from h have fc: "find (\<lambda>a. a_id a = a_id (p_activity pend)) cat = Some act" by simp
      show ?thesis unfolding activitiesLoaded_Some [OF fc] by (rule fc)
    qed
    show ?thesis
      unfolding w1 using check_resolved(1,3) [OF p f c] by simp
  qed
  have c5: "openActivityForClient words rnd activityId cl sess sessionActivityRecord w = w"
    if "find (\<lambda>a. a_id a = activityId) (activities (scope w)) = None \<or> cl = None"
    using that by (auto simp: openActivityForClient_def split: option.splits)
  from c1 c2 unresolved c4 c5 show ?thesis by blast
qed

theorem checkPendingActivity_consumes_iff_witness:
  "pendingActivity (root startWorld) = Some request \<and>
   find (\<lambda>a. a_id a = a_id (p_activity request)) (activities (scope startWorld)) = None \<and>
   find (\<lambda>a. a_id a = a_id (p_activity request)) sampleActivities = Some sSound \<and>
   p_client request \<noteq> None \<and>
   checkPendingActivity sunWordsOf firstPick startWorld = startWorld \<and>
   pendingActivity (root (checkPendingActivity sunWordsOf firstPick
      (activitiesLoaded (Some sampleActivities)
         (checkPendingActivity sunWordsOf firstPick startWorld)))) = None \<and>
   selectedActivity (scope (checkPendingActivity sunWordsOf firstPick
      (activitiesLoaded (Some sampleActivities)
         (checkPendingActivity sunWordsOf firstPick startWorld)))) = Some sSound"
proof -
  have p: "pendingActivity (root startWorld) = Some request"
    by (simp add: startWorld_def)
  have n: "find (\<lambda>a. a_id a = a_id (p_activity request)) (activities (scope startWorld)) = None"
    by (simp add: startWorld_def freshScope_def)
  have f: "find (\<lambda>a. a_id a = a_id (p_activity request)) sampleActivities = Some sSound"
    by (simp add: request_def)
  have c: "p_client request \<noteq> None"
    by (simp add: request_def)
  note t = checkPendingActivity_consumes_iff
      [OF p, of sunWordsOf firstPick sampleActivities sSound 1 None None None]
  from t n have u: "checkPendingActivity sunWordsOf firstPick startWorld = startWorld"
    by blast
  from t n f c have
    "pendingActivity (root (checkPendingActivity sunWordsOf firstPick
        (activitiesLoaded (Some sampleActivities)
           (checkPendingActivity sunWordsOf firstPick startWorld)))) = None \<and>
     selectedActivity (scope (checkPendingActivity sunWordsOf firstPick
        (activitiesLoaded (Some sampleActivities)
           (checkPendingActivity sunWordsOf firstPick startWorld)))) = Some sSound"
    by blast
  with p n f c u show ?thesis by blast
qed

text \<open>
  C1. A request is in the mailbox before the catalog is loaded, it names a client,
  and the catalog that arrives lists its activity. Whatever mechanisms fire before
  the load, between the load and the check that the load scheduled, and after it:
  the engine is started exactly once, the mailbox ends empty, the only effects are
  those of one consumption, and any mechanism firing afterwards changes nothing.
  Within the consuming call the engine is started first and the mailbox is cleared
  next, both before the call returns.
\<close>

theorem handoff_consumed_once:
  assumes "pendingActivity (root w) = Some pend"
    and "activities (scope w) = []"
    and "p_client pend = Some cl"
    and "find (\<lambda>a. a_id a = a_id (p_activity pend))
           (activities (scope (activitiesLoaded response w))) = Some act"
  shows
    "engineStarts (handoffRun words rnd pre response mid post w) = engineStarts w + 1 \<and>
     pendingActivity (root (handoffRun words rnd pre response mid post w)) = None \<and>
     trace (handoffRun words rnd pre response mid post w) =
       trace w @ [Timeout 100 CheckPending, EngineStarted, MailboxCleared,
                  Toast ToastSuccess (ActivityStartedFor (c_first_name cl) (c_last_name cl))] \<and>
     selectedActivity (scope (handoffRun words rnd pre response mid post w)) = Some act \<and>
     activityClient (scope (handoffRun words rnd pre response mid post w)) = Some cl \<and>
     fire words rnd m (handoffRun words rnd pre response mid post w) =
       handoffRun words rnd pre response mid post w"
proof -
  let ?w = "activitiesLoaded response w"
  have p: "pendingActivity (root ?w) = Some pend" using assms(1) by simp
  have run: "handoffRun words rnd pre response mid post w = checkPendingActivity words rnd ?w"
    by (rule handoffRun_eq [OF assms])
  have empty: "pendingActivity (root (checkPendingActivity words rnd ?w)) = None"
    by (rule check_resolved(1) [OF p assms(4) assms(3)])
  have "engineStarts (checkPendingActivity words rnd ?w) = engineStarts ?w + 1"
    by (rule engineStarts_check_resolved [OF p assms(4) assms(3)])
  moreover have "engineStarts ?w = engineStarts w"
    by (simp add: engineStarts_def)
  ultimately have starts: "engineStarts (checkPendingActivity words rnd ?w) = engineStarts w + 1"
    by simp
  have tr: "trace (checkPendingActivity words rnd ?w) =
       trace w @ [Timeout 100 CheckPending, EngineStarted, MailboxCleared,
                  Toast ToastSuccess (ActivityStartedFor (c_first_name cl) (c_last_name cl))]"
    using check_resolved(2) [OF p assms(4) assms(3)] by simp
  show ?thesis
    unfolding run
    using starts empty tr check_resolved(3,4) [OF p assms(4) assms(3)] fire_empty_mailbox [OF empty]
    by simp
qed

theorem handoff_consumed_once_witness:
  "pendingActivity (root startWorld) = Some request \<and>
   activities (scope startWorld) = [] \<and>
   p_client request = Some anna \<and>
   engineStarts (handoffRun sunWordsOf firstPick [Watch, Retry 300] None [Retry 600]
                   [Retry 1000, Watch, Retry 1500] startWorld) = 1 \<and>
   pendingActivity (root (handoffRun sunWordsOf firstPick [Watch, Retry 300] None [Retry 600]
                   [Retry 1000, Watch, Retry 1500] startWorld)) = None \<and>
   engineStarts (handoffRun sunWordsOf firstPick [Watch] None startupChecks [Watch] startWorld) = 1 \<and>
   engineStarts (handoffRun sunWordsOf firstPick (Watch # startupChecks) None [] [] startWorld) = 1"
proof -
  have p: "pendingActivity (root startWorld) = Some request"
    by (simp add: startWorld_def)
  have a: "activities (scope startWorld) = []"
    by (simp add: startWorld_def freshScope_def)
  have c: "p_client request = Some anna"
    by (simp add: request_def)
  have f: "find (\<lambda>a. a_id a = a_id (p_activity request))
             (activities (scope (activitiesLoaded None startWorld))) = Some sSound"
    by (simp add: request_def)
  have z: "engineStarts startWorld = 0"
    by (simp add: engineStarts_def startWorld_def)
  show ?thesis
    using p a c z
      handoff_consumed_once [OF p a c f, of sunWordsOf firstPick "[Watch, Retry 300]" "[Retry 600]"
        "[Retry 1000, Watch, Retry 1500]" Watch]
      handoff_consumed_once [OF p a c f, of sunWordsOf firstPick "[Watch]" startupChecks
        "[Watch]" Watch]
      handoff_consumed_once [OF p a c f, of sunWordsOf firstPick "Watch # startupChecks" "[]"
        "[]" Watch]
    by simp
qed

text \<open>
  Two runs of the race. In the first the effects of the consuming check are, in
  program order, the start of the engine and then the clearing of the mailbox. In
  the second the catalog does not list the requested activity: every mechanism has
  fired, the engine was never started and the request is still in the mailbox.
\<close>

theorem handoff_order_counterexample:
  "trace (handoffRun sunWordsOf firstPick [Retry 300] None [] [Retry 600] startWorld) =
     [Timeout 100 CheckPending, EngineStarted, MailboxCleared,
      Toast ToastSuccess (ActivityStartedFor ''Anna'' ''Lee'')] \<and>
   engineStarts (handoffRun sunWordsOf firstPick [Watch, Retry 300] None [Retry 600, Watch]
                   [Retry 1000, Retry 1500, Watch] lostWorld) = 0 \<and>
   pendingActivity (root (handoffRun sunWordsOf firstPick [Watch, Retry 300] None [Retry 600, Watch]
                   [Retry 1000, Retry 1500, Watch] lostWorld)) =
     Some (request\<lparr>p_activity := unknownActivity\<rparr>)"
proof -
  have p: "pendingActivity (root startWorld) = Some request"
    by (simp add: startWorld_def)
  have a: "activities (scope startWorld) = []"
    by (simp add: startWorld_def freshScope_def)
  have c: "p_client request = Some anna"
    by (simp add: request_def)
  have f: "find (\<lambda>a. a_id a = a_id (p_activity request))
             (activities (scope (activitiesLoaded None startWorld))) = Some sSound"
    by (simp add: request_def)
  have p': "pendingActivity (root (activitiesLoaded None startWorld)) = Some request"
    using p by simp
  have first: "trace (handoffRun sunWordsOf firstPick [Retry 300] None [] [Retry 600] startWorld) =
     [Timeout 100 CheckPending, EngineStarted, MailboxCleared,
      Toast ToastSuccess (ActivityStartedFor ''Anna'' ''Lee'')]"
    unfolding handoffRun_eq [OF p a c f]
    using check_resolved(2) [OF p' f c]
    by (simp add: startWorld_def anna_def)
  let ?pend = "request\<lparr>p_activity := unknownActivity\<rparr>"
  have q: "pendingActivity (root lostWorld) = Some ?pend"
    by (simp add: lostWorld_def)
  have b: "activities (scope lostWorld) = []"
    by (simp add: lostWorld_def startWorld_def freshScope_def)
  have q': "pendingActivity (root (activitiesLoaded None lostWorld)) = Some ?pend"
    using q by simp
  have g: "find (\<lambda>a. a_id a = a_id (p_activity ?pend))
             (activities (scope (activitiesLoaded None lostWorld))) = None \<or> p_client ?pend = None"
    by simp
  have run: "handoffRun sunWordsOf firstPick [Watch, Retry 300] None [Retry 600, Watch]
                   [Retry 1000, Retry 1500, Watch] lostWorld = activitiesLoaded None lostWorld"
    unfolding handoffRun_def fireAll_not_loaded [OF b]
    by (rule fireAll_unresolved [OF q' g])
  have second: "engineStarts (activitiesLoaded None lostWorld) = 0"
    by (simp add: engineStarts_def lostWorld_def startWorld_def)
  show ?thesis
    unfolding run using first second q' by simp
qed

subsection \<open>Claims about finishing a run\<close>

lemma to_double_1: "to_double 1 = 1"
  by code_simp

lemma to_double_100: "to_double 100 = 100"
  by code_simp

lemma accuracy_7_of_10: "js_times (js_divide 7 10) 100 = 70"
  by code_simp

lemma accuracy_1_of_3: "js_times (js_divide 1 3) 100 = 2345624805922133 / 70368744177664"
  by code_simp

lemma accuracy_all_correct: "0 < k \<Longrightarrow> js_times (js_divide (of_nat k) (of_nat k)) 100 = 100"
  by (simp add: js_times_def js_divide_def to_double_1 to_double_100)

lemma finishActivity_sends:
  assumes "activityClient (scope w) = Some cl"
    and "selectedActivity (scope w) = Some act"
    and "0 < currentTrial (scope w)"
  shows "finishActivity w =
     (emit [Api (CreateProgressRecord
               \<lparr>pd_client_id = c_id cl, pd_category = toLowerCase (a_category act),
                pd_accuracy_percentage = accuracyOf (scope w),
                pd_trials_total = currentTrial (scope w),
                pd_notes = ActivityNotes (a_name act) (currentTrial (scope w))
                             (trialsCorrect (scope w))\<rparr>)] w,
      Some \<lparr>fc_accuracy = accuracyOf (scope w),
            fc_sourceSession = sourceSession (scope w),
            fc_sourceSessionActivityRecord = sourceSessionActivityRecord (scope w)\<rparr>)"
  using assms by (simp add: finishActivity_def Let_def)

lemma finish_nothing_done:
  "activityClient (scope w) = None \<or> currentTrial (scope w) = 0 \<Longrightarrow>
   finishActivity w = (w\<lparr>scope := closeActivitySession (scope w)\<rparr>, None)"
  by (auto simp: finishActivity_def Let_def)

lemma progressSaved_trace:
  "trace (progressSaved fc w) =
     trace w @
     (case (fc_sourceSession fc, fc_sourceSessionActivityRecord fc) of
        (Some ss, Some r) \<Rightarrow>
           [Api (UpdateSessionActivity (s_id ss) (sa_id r)
              \<lparr>au_trials_attempted = currentTrial (scope w),
               au_trials_correct = trialsCorrect (scope w),
               au_notes = CompletedNotes (fc_accuracy fc)\<rparr>)]
      | _ \<Rightarrow> []) @
     [Toast ToastSuccess (ActivityCompleted (fc_accuracy fc))] @
     (case fc_sourceSession fc of
        Some ss \<Rightarrow> [Timeout 500 (ReturnToSessions (s_id ss))] | None \<Rightarrow> [])"
  by (cases "fc_sourceSession fc"; cases "fc_sourceSessionActivityRecord fc")
    (simp_all add: progressSaved_def Let_def emit_def returnIfFromSession_def)

lemma progressFailed_trace:
  "trace (progressFailed fc w) =
     trace w @
     [ConsoleError, Toast ToastInfo (ActivityCompletedNotSaved (fc_accuracy fc))] @
     (case fc_sourceSession fc of
        Some ss \<Rightarrow> [Timeout 500 (ReturnToSessions (s_id ss))] | None \<Rightarrow> [])"
  by (cases "fc_sourceSession fc")
    (simp_all add: progressFailed_def Let_def emit_def returnIfFromSession_def)

lemma progressSaved_scope:
  "scope (progressSaved fc w) = closeActivitySession (scope w)"
  by (cases "fc_sourceSession fc"; cases "fc_sourceSessionActivityRecord fc")
    (simp_all add: progressSaved_def Let_def emit_def returnIfFromSession_def)

lemma finishedWorld_fields:
  "activityClient (scope finishedWorld) = Some anna"
  "selectedActivity (scope finishedWorld) = Some sSound"
  "0 < currentTrial (scope finishedWorld)"
  "currentTrial (scope finishedWorld) = 10"
  "trialsCorrect (scope finishedWorld) = 7"
  "sourceSession (scope finishedWorld) = Some liveSession"
  "sourceSessionActivityRecord (scope finishedWorld) = Some openRecord"
  "trace finishedWorld = []"
  by (simp_all add: finishedWorld_def freshScope_def)

lemma accuracyOf_finishedWorld: "accuracyOf (scope finishedWorld) = 70"
  by (simp add: accuracyOf_def finishedWorld_fields accuracy_7_of_10)

lemma finishActivity_finishedWorld:
  "finishActivity finishedWorld =
     (emit [Api (CreateProgressRecord
               \<lparr>pd_client_id = 4, pd_category = ''articulation'', pd_accuracy_percentage = 70,
                pd_trials_total = 10,
                pd_notes = ActivityNotes ''S Sound Practice - Initial Position'' 10 7\<rparr>)] finishedWorld,
      Some finishedClosure)"
proof -
  have low: "toLowerCase (a_category sSound) = ''articulation''"
    by (simp add: toLowerCase_def lower_char_def sSound_def)
  show ?thesis
    unfolding finishActivity_sends [OF finishedWorld_fields(1,2,3)] low
      accuracyOf_finishedWorld finishedWorld_fields finishedClosure_def
    by (simp add: anna_def sSound_def)
qed

text \<open>
  C6. A client is bound, an activity is selected, and the counters are below
  \<open>2 ^ 53\<close> with at least one trial done. Then \<open>finishActivity\<close> posts a progress
  record whose \<open>accuracy_percentage\<close> is the double
  \<open>(trialsCorrect / currentTrial) * 100\<close>, each of the two operations rounded to the
  nearest double, and which carries \<open>trials_total = currentTrial\<close> and, in its notes,
  the number correct; the same accuracy is kept for the toasts of the callbacks.
  Seven of ten gives 70 and all correct gives 100. If the run came from a session
  and no handler has changed the counters when the post is answered, the assignment
  update carries \<open>trials_attempted = currentTrial\<close>, \<open>trials_correct = trialsCorrect\<close>
  and that accuracy in its notes. With no trial done nothing is divided or sent: the
  view is closed and that is all.
\<close>

theorem finishActivity_accuracy:
  assumes "activityClient (scope w) = Some cl"
    and "selectedActivity (scope w) = Some act"
    and "0 < currentTrial (scope w)"
    and "currentTrial (scope w) < 2 ^ 53"
    and "trialsCorrect (scope w) < 2 ^ 53"
  shows
    "finishActivity w =
       (emit [Api (CreateProgressRecord
                 \<lparr>pd_client_id = c_id cl, pd_category = toLowerCase (a_category act),
                  pd_accuracy_percentage =
                    js_times (js_divide (of_nat (trialsCorrect (scope w)))
                                        (of_nat (currentTrial (scope w)))) 100,
                  pd_trials_total = currentTrial (scope w),
                  pd_notes = ActivityNotes (a_name act) (currentTrial (scope w))
                               (trialsCorrect (scope w))\<rparr>)] w,
        Some \<lparr>fc_accuracy =
                js_times (js_divide (of_nat (trialsCorrect (scope w)))
                                    (of_nat (currentTrial (scope w)))) 100,
              fc_sourceSession = sourceSession (scope w),
              fc_sourceSessionActivityRecord = sourceSessionActivityRecord (scope w)\<rparr>) \<and>
     (trialsCorrect (scope w) = 7 \<and> currentTrial (scope w) = 10 \<longrightarrow>
        accuracyOf (scope w) = 70) \<and>
     (trialsCorrect (scope w) = currentTrial (scope w) \<longrightarrow> accuracyOf (scope w) = 100) \<and>
     Toast ToastSuccess (ActivityCompleted (accuracyOf (scope w)))
       \<in> set (trace (progressSaved (the (snd (finishActivity w))) w')) \<and>
     Toast ToastInfo (ActivityCompletedNotSaved (accuracyOf (scope w)))
       \<in> set (trace (progressFailed (the (snd (finishActivity w))) w')) \<and>
     (sourceSession (scope w) = Some ss \<and> sourceSessionActivityRecord (scope w) = Some r \<and>
      currentTrial (scope w') = currentTrial (scope w) \<and>
      trialsCorrect (scope w') = trialsCorrect (scope w) \<longrightarrow>
        hd (drop (length (trace w')) (trace (progressSaved (the (snd (finishActivity w))) w'))) =
          Api (UpdateSessionActivity (s_id ss) (sa_id r)
            \<lparr>au_trials_attempted = currentTrial (scope w),
             au_trials_correct = trialsCorrect (scope w),
             au_notes = CompletedNotes (accuracyOf (scope w))\<rparr>)) \<and>
     (currentTrial (scope w0) = 0 \<longrightarrow>
        finishActivity w0 = (w0\<lparr>scope := closeActivitySession (scope w0)\<rparr>, None))"
proof -
  note sends = finishActivity_sends [OF assms(1-3)]
  have c1: "finishActivity w =
       (emit [Api (CreateProgressRecord
                 \<lparr>pd_client_id = c_id cl, pd_category = toLowerCase (a_category act),
                  pd_accuracy_percentage =
                    js_times (js_divide (of_nat (trialsCorrect (scope w)))
                                        (of_nat (currentTrial (scope w)))) 100,
                  pd_trials_total = currentTrial (scope w),
                  pd_notes = ActivityNotes (a_name act) (currentTrial (scope w))
                               (trialsCorrect (scope w))\<rparr>)] w,
        Some \<lparr>fc_accuracy =
                js_times (js_divide (of_nat (trialsCorrect (scope w)))
                                    (of_nat (currentTrial (scope w)))) 100,
              fc_sourceSession = sourceSession (scope w),
              fc_sourceSessionActivityRecord = sourceSessionActivityRecord (scope w)\<rparr>)"
    unfolding sends by (simp add: accuracyOf_def)
  have c2: "accuracyOf (scope w) = 70"
    if "trialsCorrect (scope w) = 7 \<and> currentTrial (scope w) = 10"
    using that by (simp add: accuracyOf_def accuracy_7_of_10)
  have c3: "accuracyOf (scope w) = 100" if "trialsCorrect (scope w) = currentTrial (scope w)"
    using that assms(3) by (simp add: accuracyOf_def accuracy_all_correct)
  have c4: "Toast ToastSuccess (ActivityCompleted (accuracyOf (scope w)))
       \<in> set (trace (progressSaved (the (snd (finishActivity w))) w'))"
    unfolding sends progressSaved_trace by simp
  have c5: "Toast ToastInfo (ActivityCompletedNotSaved (accuracyOf (scope w)))
       \<in> set (trace (progressFailed (the (snd (finishActivity w))) w'))"
    unfolding sends progressFailed_trace by simp
  have c6: "hd (drop (length (trace w')) (trace (progressSaved (the (snd (finishActivity w))) w'))) =
          Api (UpdateSessionActivity (s_id ss) (sa_id r)
            \<lparr>au_trials_attempted = currentTrial (scope w),
             au_trials_correct = trialsCorrect (scope w),
             au_notes = CompletedNotes (accuracyOf (scope w))\<rparr>)"
    if "sourceSession (scope w) = Some ss \<and> sourceSessionActivityRecord (scope w) = Some r \<and>
      currentTrial (scope w') = currentTrial (scope w) \<and>
      trialsCorrect (scope w') = trialsCorrect (scope w)"
    unfolding sends progressSaved_trace using that by simp
  have c7: "finishActivity w0 = (w0\<lparr>scope := closeActivitySession (scope w0)\<rparr>, None)"
    if "currentTrial (scope w0) = 0"
    using that by (simp add: finish_nothing_done)
  from c1 c2 c3 c4 c5 c6 c7 show ?thesis by blast
qed

theorem finishActivity_accuracy_witness:
  "activityClient (scope finishedWorld) = Some anna \<and>
   selectedActivity (scope finishedWorld) = Some sSound \<and>
   0 < currentTrial (scope finishedWorld) \<and>
   currentTrial (scope finishedWorld) < 2 ^ 53 \<and>
   trialsCorrect (scope finishedWorld) < 2 ^ 53 \<and>
   trialsCorrect (scope finishedWorld) = 7 \<and> currentTrial (scope finishedWorld) = 10 \<and>
   accuracyOf (scope finishedWorld) = 70 \<and>
   hd (trace (progressSaved (the (snd (finishActivity finishedWorld)))
               ((fst (finishActivity finishedWorld))\<lparr>trace := []\<rparr>))) =
     Api (UpdateSessionActivity 7 22
       \<lparr>au_trials_attempted = 10, au_trials_correct = 7, au_notes = CompletedNotes 70\<rparr>) \<and>
   finishActivity startWorld = (startWorld\<lparr>scope := closeActivitySession (scope startWorld)\<rparr>, None)"
proof -
  have b: "currentTrial (scope finishedWorld) < 2 ^ 53" "trialsCorrect (scope finishedWorld) < 2 ^ 53"
    by (simp_all add: finishedWorld_fields)
  let ?w' = "(fst (finishActivity finishedWorld))\<lparr>trace := []\<rparr>"
  have same: "currentTrial (scope ?w') = currentTrial (scope finishedWorld) \<and>
      trialsCorrect (scope ?w') = trialsCorrect (scope finishedWorld)"
    by (simp add: finishActivity_finishedWorld emit_def)
  have z: "currentTrial (scope startWorld) = 0"
    by (simp add: startWorld_def freshScope_def)
  have ids: "s_id liveSession = 7" "sa_id openRecord = 22"
    by (simp_all add: liveSession_def scheduledSession_def openRecord_def)
  note t = finishActivity_accuracy [OF finishedWorld_fields(1,2,3) b,
      of ?w' liveSession openRecord startWorld]
  from t finishedWorld_fields(4,5) have acc: "accuracyOf (scope finishedWorld) = 70"
    by blast
  from t finishedWorld_fields(6,7) same have
    "hd (drop (length (trace ?w')) (trace (progressSaved (the (snd (finishActivity finishedWorld))) ?w'))) =
       Api (UpdateSessionActivity (s_id liveSession) (sa_id openRecord)
         \<lparr>au_trials_attempted = currentTrial (scope finishedWorld),
          au_trials_correct = trialsCorrect (scope finishedWorld),
          au_notes = CompletedNotes (accuracyOf (scope finishedWorld))\<rparr>)"
    by blast
  then have upd: "hd (trace (progressSaved (the (snd (finishActivity finishedWorld))) ?w')) =
     Api (UpdateSessionActivity 7 22
       \<lparr>au_trials_attempted = 10, au_trials_correct = 7, au_notes = CompletedNotes 70\<rparr>)"
    unfolding acc ids finishedWorld_fields(4,5) by simp
  from t z have none: "finishActivity startWorld =
      (startWorld\<lparr>scope := closeActivitySession (scope startWorld)\<rparr>, None)"
    by blast
  from finishedWorld_fields b acc upd none show ?thesis by simp
qed

text \<open>
  Two finishes. After three trials with one correct, the accuracy sent is the double
  33.33333333333333, less than a third of a hundred. And when Finish is pressed
  twice before the first post is answered (ten trials, seven correct), the first
  callback closes the view and resets the counters, and the second sends an
  assignment update with no trial attempted and none correct.
\<close>

theorem finishActivity_result_counterexample:
  "fst (finishActivity thirdWorld) =
     emit [Api (CreateProgressRecord
              \<lparr>pd_client_id = 4, pd_category = ''articulation'',
               pd_accuracy_percentage = 2345624805922133 / 70368744177664,
               pd_trials_total = 3,
               pd_notes = ActivityNotes ''S Sound Practice - Initial Position'' 3 1\<rparr>)] thirdWorld \<and>
   (2345624805922133 / 70368744177664 :: rat) < 1 / 3 * 100 \<and>
   snd (finishActivity finishedWorld) = Some finishedClosure \<and>
   snd (finishActivity (fst (finishActivity finishedWorld))) = Some finishedClosure \<and>
   trace (progressSaved finishedClosure (progressSaved finishedClosure
            ((fst (finishActivity (fst (finishActivity finishedWorld))))\<lparr>trace := []\<rparr>))) =
     [Api (UpdateSessionActivity 7 22
        \<lparr>au_trials_attempted = 10, au_trials_correct = 7, au_notes = CompletedNotes 70\<rparr>),
      Toast ToastSuccess (ActivityCompleted 70),
      Timeout 500 (ReturnToSessions 7),
      Api (UpdateSessionActivity 7 22
        \<lparr>au_trials_attempted = 0, au_trials_correct = 0, au_notes = CompletedNotes 70\<rparr>),
      Toast ToastSuccess (ActivityCompleted 70),
      Timeout 500 (ReturnToSessions 7)]"
proof -
  have f: "activityClient (scope thirdWorld) = Some anna"
    "selectedActivity (scope thirdWorld) = Some sSound"
    "0 < currentTrial (scope thirdWorld)"
    by (simp_all add: thirdWorld_def finishedWorld_def freshScope_def)
  have low: "toLowerCase (a_category sSound) = ''articulation''"
    by (simp add: toLowerCase_def lower_char_def sSound_def)
  have acc: "accuracyOf (scope thirdWorld) = 2345624805922133 / 70368744177664"
    by (simp add: accuracyOf_def thirdWorld_def finishedWorld_def freshScope_def accuracy_1_of_3)
  have c1: "fst (finishActivity thirdWorld) =
     emit [Api (CreateProgressRecord
              \<lparr>pd_client_id = 4, pd_category = ''articulation'',
               pd_accuracy_percentage = 2345624805922133 / 70368744177664,
               pd_trials_total = 3,
               pd_notes = ActivityNotes ''S Sound Practice - Initial Position'' 3 1\<rparr>)] thirdWorld"
    unfolding finishActivity_sends [OF f] low acc
    by (simp add: thirdWorld_def finishedWorld_def freshScope_def anna_def sSound_def)
  have c2: "(2345624805922133 / 70368744177664 :: rat) < 1 / 3 * 100"
    by simp
  let ?w1 = "fst (finishActivity finishedWorld)"
  have w1: "?w1 = emit [Api (CreateProgressRecord
               \<lparr>pd_client_id = 4, pd_category = ''articulation'', pd_accuracy_percentage = 70,
                pd_trials_total = 10,
                pd_notes = ActivityNotes ''S Sound Practice - Initial Position'' 10 7\<rparr>)] finishedWorld"
    by (simp add: finishActivity_finishedWorld)
  have g: "activityClient (scope ?w1) = Some anna" "selectedActivity (scope ?w1) = Some sSound"
    "0 < currentTrial (scope ?w1)"
    unfolding w1 by (simp_all add: emit_def finishedWorld_fields)
  have sc: "scope ?w1 = scope finishedWorld"
    unfolding w1 by (simp add: emit_def)
  have c4: "snd (finishActivity ?w1) = Some finishedClosure"
    unfolding finishActivity_sends [OF g] sc
    by (simp add: accuracyOf_finishedWorld finishedWorld_fields finishedClosure_def)
  let ?w2 = "(fst (finishActivity ?w1))\<lparr>trace := []\<rparr>"
  have sc2: "scope ?w2 = scope finishedWorld" "trace ?w2 = []"
    unfolding finishActivity_sends [OF g] by (simp_all add: emit_def sc)
  have ids: "s_id liveSession = 7" "sa_id openRecord = 22"
    by (simp_all add: liveSession_def scheduledSession_def openRecord_def)
  have c5: "trace (progressSaved finishedClosure (progressSaved finishedClosure ?w2)) =
     [Api (UpdateSessionActivity 7 22
        \<lparr>au_trials_attempted = 10, au_trials_correct = 7, au_notes = CompletedNotes 70\<rparr>),
      Toast ToastSuccess (ActivityCompleted 70),
      Timeout 500 (ReturnToSessions 7),
      Api (UpdateSessionActivity 7 22
        \<lparr>au_trials_attempted = 0, au_trials_correct = 0, au_notes = CompletedNotes 70\<rparr>),
      Toast ToastSuccess (ActivityCompleted 70),
      Timeout 500 (ReturnToSessions 7)]"
    unfolding progressSaved_trace progressSaved_scope sc2
    by (simp add: finishedClosure_def ids finishedWorld_fields closeActivitySession_def
        resetActivityState_def)
  from c1 c2 c4 c5 show ?thesis
    by (simp add: finishActivity_finishedWorld)
qed

text \<open>
  C7. A run was opened from a session whose identifier is not 0; a client is bound,
  an activity is selected and at least one trial is done. Then \<open>finishActivity\<close>
  posts the progress record, and whichever callback answers, at whatever later
  state, it sets a timer of 500 ms for the return to that session. The result is
  reported in both cases: by a success toast when the record was saved, by an info
  toast of its own wording (results not saved) and no success toast when it was
  not. A failed assignment update adds a line on the console and nothing else. The
  timer's callback stores the session's identifier in \<open>returnToSessionId\<close> and shows
  the sessions view; the sessions view, on seeing the identifier, reloads its
  sessions and resets \<open>returnToSessionId\<close> to \<^verbatim>\<open>null\<close>. A run finished before its
  first response is closed with no request, no timer and no identifier stored.
\<close>

theorem finishActivity_returns_to_session:
  assumes "activityClient (scope w) = Some cl"
    and "selectedActivity (scope w) = Some act"
    and "0 < currentTrial (scope w)"
    and "sourceSession (scope w) = Some ss"
    and "s_id ss \<noteq> 0"
  shows
    "(\<exists>fc. snd (finishActivity w) = Some fc \<and> fc_sourceSession fc = Some ss \<and>
        Timeout 500 (ReturnToSessions (s_id ss))
          \<in> set (drop (length (trace w')) (trace (progressSaved fc w'))) \<and>
        Timeout 500 (ReturnToSessions (s_id ss))
          \<in> set (drop (length (trace w')) (trace (progressFailed fc w'))) \<and>
        Toast ToastSuccess (ActivityCompleted (fc_accuracy fc))
          \<in> set (drop (length (trace w')) (trace (progressSaved fc w'))) \<and>
        Toast ToastInfo (ActivityCompletedNotSaved (fc_accuracy fc))
          \<in> set (drop (length (trace w')) (trace (progressFailed fc w'))) \<and>
        Toast ToastSuccess (ActivityCompleted (fc_accuracy fc))
          \<notin> set (drop (length (trace w')) (trace (progressFailed fc w'))) \<and>
        Toast ToastInfo (ActivityCompletedNotSaved (fc_accuracy fc))
          \<notin> set (drop (length (trace w'))
                 (trace (sessionActivityUpdateFailed (progressSaved fc w'))))) \<and>
     trace (sessionActivityUpdateFailed w'') = trace w'' @ [ConsoleError] \<and>
     returnToSessionId (root (runDeferred words rnd (ReturnToSessions (s_id ss)) w'')) =
       Some (s_id ss) \<and>
     currentView (root (runDeferred words rnd (ReturnToSessions (s_id ss)) w'')) = ''sessions'' \<and>
     returnToSessionId (root (watchReturnToSession
        (runDeferred words rnd (ReturnToSessions (s_id ss)) w''))) = None \<and>
     trace (watchReturnToSession (runDeferred words rnd (ReturnToSessions (s_id ss)) w'')) =
       trace w'' @ [LoadSessions, Toast ToastInfo (Plain ''Returned to session'')] \<and>
     (currentTrial (scope w0) = 0 \<longrightarrow>
        finishActivity w0 = (w0\<lparr>scope := closeActivitySession (scope w0)\<rparr>, None) \<and>
        trace (fst (finishActivity w0)) = trace w0 \<and>
        root (fst (finishActivity w0)) = root w0)"
proof -
  let ?fc = "\<lparr>fc_accuracy = accuracyOf (scope w),
            fc_sourceSession = sourceSession (scope w),
            fc_sourceSessionActivityRecord = sourceSessionActivityRecord (scope w)\<rparr>"
  have fc: "snd (finishActivity w) = Some ?fc"
    by (simp add: finishActivity_sends [OF assms(1-3)])
  have src: "fc_sourceSession ?fc = Some ss"
    using assms(4) by simp
  have saved: "drop (length (trace w')) (trace (progressSaved ?fc w')) =
      (case sourceSessionActivityRecord (scope w) of
         Some r \<Rightarrow>
           [Api (UpdateSessionActivity (s_id ss) (sa_id r)
              \<lparr>au_trials_attempted = currentTrial (scope w'),
               au_trials_correct = trialsCorrect (scope w'),
               au_notes = CompletedNotes (accuracyOf (scope w))\<rparr>)]
       | None \<Rightarrow> []) @
      [Toast ToastSuccess (ActivityCompleted (accuracyOf (scope w))),
       Timeout 500 (ReturnToSessions (s_id ss))]"
    unfolding progressSaved_trace using assms(4)
    by (cases "sourceSessionActivityRecord (scope w)") simp_all
  have failed: "drop (length (trace w')) (trace (progressFailed ?fc w')) =
      [ConsoleError, Toast ToastInfo (ActivityCompletedNotSaved (accuracyOf (scope w))),
       Timeout 500 (ReturnToSessions (s_id ss))]"
    unfolding progressFailed_trace using assms(4) by simp
  have logged: "drop (length (trace w'))
        (trace (sessionActivityUpdateFailed (progressSaved ?fc w'))) =
      drop (length (trace w')) (trace (progressSaved ?fc w')) @ [ConsoleError]"
    by (simp add: sessionActivityUpdateFailed_def emit_def progressSaved_trace)
  have c1: "\<exists>fc. snd (finishActivity w) = Some fc \<and> fc_sourceSession fc = Some ss \<and>
        Timeout 500 (ReturnToSessions (s_id ss))
          \<in> set (drop (length (trace w')) (trace (progressSaved fc w'))) \<and>
        Timeout 500 (ReturnToSessions (s_id ss))
          \<in> set (drop (length (trace w')) (trace (progressFailed fc w'))) \<and>
        Toast ToastSuccess (ActivityCompleted (fc_accuracy fc))
          \<in> set (drop (length (trace w')) (trace (progressSaved fc w'))) \<and>
        Toast ToastInfo (ActivityCompletedNotSaved (fc_accuracy fc))
          \<in> set (drop (length (trace w')) (trace (progressFailed fc w'))) \<and>
        Toast ToastSuccess (ActivityCompleted (fc_accuracy fc))
          \<notin> set (drop (length (trace w')) (trace (progressFailed fc w'))) \<and>
        Toast ToastInfo (ActivityCompletedNotSaved (fc_accuracy fc))
          \<notin> set (drop (length (trace w'))
                 (trace (sessionActivityUpdateFailed (progressSaved fc w'))))"
  proof (intro exI conjI)
    show "snd (finishActivity w) = Some ?fc" by (rule fc)
    show "fc_sourceSession ?fc = Some ss" by (rule src)
    show "Timeout 500 (ReturnToSessions (s_id ss))
          \<in> set (drop (length (trace w')) (trace (progressSaved ?fc w')))"
      unfolding saved by simp
    show "Timeout 500 (ReturnToSessions (s_id ss))
          \<in> set (drop (length (trace w')) (trace (progressFailed ?fc w')))"
      unfolding failed by simp
    show "Toast ToastSuccess (ActivityCompleted (fc_accuracy ?fc))
          \<in> set (drop (length (trace w')) (trace (progressSaved ?fc w')))"
      unfolding saved by simp
    show "Toast ToastInfo (ActivityCompletedNotSaved (fc_accuracy ?fc))
          \<in> set (drop (length (trace w')) (trace (progressFailed ?fc w')))"
      unfolding failed by simp
    show "Toast ToastSuccess (ActivityCompleted (fc_accuracy ?fc))
          \<notin> set (drop (length (trace w')) (trace (progressFailed ?fc w')))"
      unfolding failed by simp
    show "Toast ToastInfo (ActivityCompletedNotSaved (fc_accuracy ?fc))
          \<notin> set (drop (length (trace w'))
                 (trace (sessionActivityUpdateFailed (progressSaved ?fc w'))))"
      unfolding logged saved by (cases "sourceSessionActivityRecord (scope w)") simp_all
  qed
  have c2: "trace (sessionActivityUpdateFailed w'') = trace w'' @ [ConsoleError]"
    by (simp add: sessionActivityUpdateFailed_def emit_def)
  let ?w = "runDeferred words rnd (ReturnToSessions (s_id ss)) w''"
  have c3: "returnToSessionId (root ?w) = Some (s_id ss) \<and> currentView (root ?w) = ''sessions''"
    by (simp add: setView_def)
  have c4: "trace ?w = trace w''"
    by (simp add: setView_def)
  have c5: "returnToSessionId (root (watchReturnToSession ?w)) = None \<and>
      trace (watchReturnToSession ?w) =
        trace ?w @ [LoadSessions, Toast ToastInfo (Plain ''Returned to session'')]"
    using c3 assms(5) by (simp add: watchReturnToSession_def Let_def emit_def)
  have c6: "finishActivity w0 = (w0\<lparr>scope := closeActivitySession (scope w0)\<rparr>, None) \<and>
        trace (fst (finishActivity w0)) = trace w0 \<and>
        root (fst (finishActivity w0)) = root w0"
    if "currentTrial (scope w0) = 0"
    using that by (simp add: finish_nothing_done)
  from c1 c2 c3 c4 c5 c6 show ?thesis by simp
qed

theorem finishActivity_returns_to_session_witness:
  "activityClient (scope finishedWorld) = Some anna \<and>
   selectedActivity (scope finishedWorld) = Some sSound \<and>
   0 < currentTrial (scope finishedWorld) \<and>
   sourceSession (scope finishedWorld) = Some liveSession \<and>
   s_id liveSession \<noteq> 0 \<and>
   currentTrial (scope openedWorld) = 0 \<and>
   Timeout 500 (ReturnToSessions 7) \<in> set (trace (progressFailed finishedClosure finishedWorld)) \<and>
   Toast ToastInfo (ActivityCompletedNotSaved 70)
     \<in> set (trace (progressFailed finishedClosure finishedWorld)) \<and>
   returnToSessionId (root (runDeferred sunWordsOf firstPick (ReturnToSessions 7)
      (progressFailed finishedClosure finishedWorld))) = Some 7 \<and>
   returnToSessionId (root (watchReturnToSession (runDeferred sunWordsOf firstPick (ReturnToSessions 7)
      (progressFailed finishedClosure finishedWorld)))) = None \<and>
   snd (finishActivity openedWorld) = None"
proof -
  have e: "s_id liveSession \<noteq> 0" and i: "s_id liveSession = 7"
    by (simp_all add: liveSession_def scheduledSession_def)
  have z: "currentTrial (scope openedWorld) = 0"
    by (simp add: openedWorld_def)
  have fc: "snd (finishActivity finishedWorld) = Some finishedClosure"
    by (simp add: finishActivity_finishedWorld)
  have acc: "fc_accuracy finishedClosure = 70"
    by (simp add: finishedClosure_def)
  note t = finishActivity_returns_to_session
    [OF finishedWorld_fields(1,2,3) finishedWorld_fields(6) e,
      of finishedWorld "progressFailed finishedClosure finishedWorld" sunWordsOf firstPick openedWorld]
  from t fc have
    "Timeout 500 (ReturnToSessions (s_id liveSession))
       \<in> set (drop (length (trace finishedWorld)) (trace (progressFailed finishedClosure finishedWorld))) \<and>
     Toast ToastInfo (ActivityCompletedNotSaved (fc_accuracy finishedClosure))
       \<in> set (drop (length (trace finishedWorld)) (trace (progressFailed finishedClosure finishedWorld)))"
    by auto
  then have r1: "Timeout 500 (ReturnToSessions 7)
       \<in> set (trace (progressFailed finishedClosure finishedWorld)) \<and>
     Toast ToastInfo (ActivityCompletedNotSaved 70)
       \<in> set (trace (progressFailed finishedClosure finishedWorld))"
    unfolding i acc by (simp add: finishedWorld_fields)
  from t have r2: "returnToSessionId (root (runDeferred sunWordsOf firstPick
        (ReturnToSessions (s_id liveSession)) (progressFailed finishedClosure finishedWorld))) =
      Some (s_id liveSession) \<and>
    returnToSessionId (root (watchReturnToSession (runDeferred sunWordsOf firstPick
        (ReturnToSessions (s_id liveSession)) (progressFailed finishedClosure finishedWorld)))) = None"
    by blast
  from t z have r3: "snd (finishActivity openedWorld) = None"
    by simp
  from finishedWorld_fields e z r1 r2 [unfolded i] r3 show ?thesis by simp
qed

text \<open>
  Two finishes of a run that came from session 7. Finished before the first
  response, the run is closed: no request, no timer, and \<open>returnToSessionId\<close> stays
  \<^verbatim>\<open>null\<close>. Finished after ten trials with the progress record saved and the
  assignment update failed, the operator sees the success toast, and the failure
  is a line on the console.
\<close>

theorem finishActivity_no_return_counterexample:
  "sourceSession (scope openedWorld) = Some liveSession \<and>
   activityClient (scope openedWorld) = Some anna \<and>
   finishActivity openedWorld = (openedWorld\<lparr>scope := closeActivitySession (scope openedWorld)\<rparr>, None) \<and>
   trace (fst (finishActivity openedWorld)) = [] \<and>
   returnToSessionId (root (fst (finishActivity openedWorld))) = None \<and>
   trace (sessionActivityUpdateFailed (progressSaved finishedClosure
            ((fst (finishActivity finishedWorld))\<lparr>trace := []\<rparr>))) =
     [Api (UpdateSessionActivity 7 22
        \<lparr>au_trials_attempted = 10, au_trials_correct = 7, au_notes = CompletedNotes 70\<rparr>),
      Toast ToastSuccess (ActivityCompleted 70),
      Timeout 500 (ReturnToSessions 7),
      ConsoleError]"
proof -
  have z: "activityClient (scope openedWorld) = None \<or> currentTrial (scope openedWorld) = 0"
    by (simp add: openedWorld_def)
  have o: "sourceSession (scope openedWorld) = Some liveSession"
    "activityClient (scope openedWorld) = Some anna"
    "trace openedWorld = []" "returnToSessionId (root openedWorld) = None"
    by (simp_all add: openedWorld_def finishedWorld_def freshScope_def)
  have ids: "s_id liveSession = 7" "sa_id openRecord = 22"
    by (simp_all add: liveSession_def scheduledSession_def openRecord_def)
  let ?w = "(fst (finishActivity finishedWorld))\<lparr>trace := []\<rparr>"
  have w: "scope ?w = scope finishedWorld" "trace ?w = []"
    by (simp_all add: finishActivity_finishedWorld emit_def)
  have last: "trace (sessionActivityUpdateFailed (progressSaved finishedClosure ?w)) =
     [Api (UpdateSessionActivity 7 22
        \<lparr>au_trials_attempted = 10, au_trials_correct = 7, au_notes = CompletedNotes 70\<rparr>),
      Toast ToastSuccess (ActivityCompleted 70),
      Timeout 500 (ReturnToSessions 7),
      ConsoleError]"
    unfolding sessionActivityUpdateFailed_def emit_def
    by (simp add: progressSaved_trace w finishedClosure_def ids finishedWorld_fields)
  from o last show ?thesis
    unfolding finish_nothing_done [OF z] by simp
qed

subsection \<open>Claims about the sessions view\<close>

lemma allCompleted_truthy:
  "allCompleted sas = list_all (\<lambda>sa. truthy (trials_attempted sa)) sas"
  by (induction sas) auto

lemma checkSessionAutoComplete_cases:
  "checkSessionAutoComplete s = [] \<or>
   checkSessionAutoComplete s = [Api (UpdateSession (s_id s) (statusUpdate ''completed''))]"
  by (simp add: checkSessionAutoComplete_def updateSessionStatus_def)

lemma checkSessionAutoComplete_truthy:
  "(checkSessionAutoComplete s \<noteq> []) =
     (s_status s = Some ''in_progress'' \<and>
      (\<exists>sas. assignedActivities s = Some sas \<and> sas \<noteq> [] \<and>
         list_all (\<lambda>sa. truthy (trials_attempted sa)) sas))"
  by (cases "assignedActivities s")
    (simp_all add: checkSessionAutoComplete_def allCompleted_truthy updateSessionStatus_def)

lemma count_truthy_positive:
  "isCount v \<Longrightarrow> truthy v = (case v of JsNumber n \<Rightarrow> 0 < n | _ \<Rightarrow> False)"
  by (cases v) (auto simp: isCount_def)

lemma counts_list_all:
  "list_all (\<lambda>sa. isCount (trials_attempted sa)) sas \<Longrightarrow>
   list_all (\<lambda>sa. truthy (trials_attempted sa)) sas =
   list_all (\<lambda>sa. case trials_attempted sa of JsNumber n \<Rightarrow> 0 < n | _ \<Rightarrow> False) sas"
  by (induction sas) (simp_all add: count_truthy_positive)

lemma checkSessionStatuses_concat:
  "checkSessionStatuses ss = concat (map checkSessionAutoComplete ss)"
  by (induction ss) (simp_all add: checkSessionAutoComplete_def)

text \<open>
  C2. \<open>checkSessionAutoComplete\<close> asks for the status completed exactly when the
  session's status is in progress, its list of assignments is present and not
  empty, and every assignment has a truthy \<open>trials_attempted\<close>. It asks for nothing
  when the list is empty or when some assignment has no value or 0. Where every
  \<open>trials_attempted\<close> is missing or a number that is not negative, the decision is
  the one of the specification: every assignment has \<open>trials_attempted > 0\<close>. The
  periodic \<open>checkSessionStatuses\<close> sends, for a list of sessions, the requests of
  \<open>checkSessionAutoComplete\<close> for each of them, in the order of the list.
\<close>

theorem checkSessionAutoComplete_iff:
  "((checkSessionAutoComplete s \<noteq> []) =
      (s_status s = Some ''in_progress'' \<and>
       (\<exists>sas. assignedActivities s = Some sas \<and> sas \<noteq> [] \<and>
          list_all (\<lambda>sa. truthy (trials_attempted sa)) sas))) \<and>
   (checkSessionAutoComplete s \<noteq> [] \<longrightarrow>
      checkSessionAutoComplete s = [Api (UpdateSession (s_id s) (statusUpdate ''completed''))] \<and>
      s_status (fst (autoCompleteAnswered True s)) = Some ''completed'') \<and>
   (assignedActivities s = Some [] \<longrightarrow> checkSessionAutoComplete s = []) \<and>
   (assignedActivities s = Some sas \<and>
    (\<exists>sa \<in> set sas. trials_attempted sa = Undefined \<or> trials_attempted sa = Null \<or>
                     trials_attempted sa = JsNumber 0) \<longrightarrow>
      checkSessionAutoComplete s = []) \<and>
   (countsOnly s \<longrightarrow> (checkSessionAutoComplete s \<noteq> []) = evaluateAutoCompletion_spec s) \<and>
   checkSessionStatuses ss = concat (map checkSessionAutoComplete ss)"
proof -
  note c1 = checkSessionAutoComplete_truthy [of s]
  have c2: "checkSessionAutoComplete s = [Api (UpdateSession (s_id s) (statusUpdate ''completed''))] \<and>
      s_status (fst (autoCompleteAnswered True s)) = Some ''completed''"
    if "checkSessionAutoComplete s \<noteq> []"
    using that checkSessionAutoComplete_cases [of s]
    by (simp add: autoCompleteAnswered_def sessionStatusUpdated_def)
  have c3: "checkSessionAutoComplete s = []" if "assignedActivities s = Some []"
    using that by (simp add: checkSessionAutoComplete_def)
  have c4: "checkSessionAutoComplete s = []"
    if h: "assignedActivities s = Some sas \<and>
      (\<exists>sa \<in> set sas. trials_attempted sa = Undefined \<or> trials_attempted sa = Null \<or>
                       trials_attempted sa = JsNumber 0)"
  proof -
    from h obtain sa where sa: "sa \<in> set sas"
        "trials_attempted sa = Undefined \<or> trials_attempted sa = Null \<or>
         trials_attempted sa = JsNumber 0"
      by blast
    from sa(2) have "\<not> truthy (trials_attempted sa)" by auto
    with sa(1) have "\<not> list_all (\<lambda>sa. truthy (trials_attempted sa)) sas"
      unfolding list_all_iff by blast
    with h c1 show ?thesis by simp
  qed
  have c5: "(checkSessionAutoComplete s \<noteq> []) = evaluateAutoCompletion_spec s" if "countsOnly s"
  proof (cases "assignedActivities s")
    case None
    then show ?thesis by (simp add: c1 evaluateAutoCompletion_spec_def)
  next
    case (Some sas)
    with that have "list_all (\<lambda>sa. isCount (trials_attempted sa)) sas"
      by (simp add: countsOnly_def)
    from counts_list_all [OF this] Some show ?thesis
      by (simp add: c1 evaluateAutoCompletion_spec_def)
  qed
  from c1 c2 c3 c4 c5 checkSessionStatuses_concat [of ss] show ?thesis by blast
qed

theorem checkSessionAutoComplete_iff_witness:
  "countsOnly (liveSession\<lparr>assignedActivities := Some [doneRecord, doneRecord]\<rparr>) \<and>
   evaluateAutoCompletion_spec (liveSession\<lparr>assignedActivities := Some [doneRecord, doneRecord]\<rparr>) \<and>
   checkSessionAutoComplete (liveSession\<lparr>assignedActivities := Some [doneRecord, doneRecord]\<rparr>) =
     [Api (UpdateSession 7 (statusUpdate ''completed''))] \<and>
   checkSessionAutoComplete (liveSession\<lparr>assignedActivities := Some [doneRecord, openRecord]\<rparr>) = [] \<and>
   checkSessionAutoComplete (liveSession\<lparr>assignedActivities := Some [doneRecord, untouchedRecord]\<rparr>) = [] \<and>
   checkSessionAutoComplete (liveSession\<lparr>assignedActivities := Some []\<rparr>) = []"
proof -
  let ?both = "liveSession\<lparr>assignedActivities := Some [doneRecord, doneRecord]\<rparr>"
  let ?one = "liveSession\<lparr>assignedActivities := Some [doneRecord, openRecord]\<rparr>"
  let ?miss = "liveSession\<lparr>assignedActivities := Some [doneRecord, untouchedRecord]\<rparr>"
  let ?none = "liveSession\<lparr>assignedActivities := Some []\<rparr>"
  have k: "countsOnly ?both"
    by (simp add: countsOnly_def isCount_def doneRecord_def)
  have a: "evaluateAutoCompletion_spec ?both"
    by (simp add: evaluateAutoCompletion_spec_def liveSession_def scheduledSession_def doneRecord_def)
  have i: "s_id ?both = 7"
    by (simp add: liveSession_def scheduledSession_def)
  have b: "assignedActivities ?one = Some [doneRecord, openRecord] \<and>
      (\<exists>sa \<in> set [doneRecord, openRecord]. trials_attempted sa = Undefined \<or>
          trials_attempted sa = Null \<or> trials_attempted sa = JsNumber 0)"
    by (simp add: openRecord_def)
  have c: "assignedActivities ?miss = Some [doneRecord, untouchedRecord] \<and>
      (\<exists>sa \<in> set [doneRecord, untouchedRecord]. trials_attempted sa = Undefined \<or>
          trials_attempted sa = Null \<or> trials_attempted sa = JsNumber 0)"
    by (simp add: untouchedRecord_def)
  have d: "assignedActivities ?none = Some []"
    by simp
  from k a checkSessionAutoComplete_iff [of ?both "[]" "[]"]
  have r1: "checkSessionAutoComplete ?both = [Api (UpdateSession 7 (statusUpdate ''completed''))]"
    unfolding i by blast
  from b checkSessionAutoComplete_iff [of ?one "[doneRecord, openRecord]" "[]"]
  have r2: "checkSessionAutoComplete ?one = []" by blast
  from c checkSessionAutoComplete_iff [of ?miss "[doneRecord, untouchedRecord]" "[]"]
  have r3: "checkSessionAutoComplete ?miss = []" by blast
  from d checkSessionAutoComplete_iff [of ?none "[]" "[]"]
  have r4: "checkSessionAutoComplete ?none = []" by blast
  from k a r1 r2 r3 r4 show ?thesis by blast
qed

text \<open>
  A session in progress whose one assignment has \<open>trials_attempted = -1\<close>: the
  value is truthy and is not 0, so the code asks for the status completed, though
  the number of attempted trials is not greater than 0.
\<close>

theorem checkSessionAutoComplete_negative_counterexample:
  "trials_attempted negativeRecord = JsNumber (- 1) \<and>
   checkSessionAutoComplete (liveSession\<lparr>assignedActivities := Some [negativeRecord]\<rparr>) =
     [Api (UpdateSession 7 (statusUpdate ''completed''))] \<and>
   \<not> evaluateAutoCompletion_spec (liveSession\<lparr>assignedActivities := Some [negativeRecord]\<rparr>)"
  by (simp add: negativeRecord_def checkSessionAutoComplete_def updateSessionStatus_def
      evaluateAutoCompletion_spec_def liveSession_def scheduledSession_def)

text \<open>
  C3. In the edit form (\<open>saveSession\<close>), a change of the status to in progress, for
  a session that is not yet in progress, is checked against a window, provided the
  form's session date is a valid instant \<open>t\<close>, its duration is a number \<open>d\<close> of
  minutes, and the end \<open>t + d\<close> minutes is a valid instant too (at most
  8640000000000000 ms from the epoch). Outside the window the only effect is an
  error toast: no request is sent, and the handler changes no state, so the session
  keeps its status. Inside the window, ends included, the update carrying the
  status in progress is sent.
\<close>

theorem saveSession_time_window:
  assumes "editingSession ss = Some es"
    and "f_status (sessionForm ss) = ''in_progress''"
    and "s_status es \<noteq> Some ''in_progress''"
    and "js_or_date (f_session_date (sessionForm ss))
           (js_or_date (originalSessionDate ss) (s_session_date es)) = DateAt t"
    and "\<bar>t\<bar> \<le> 8640000000000000"
    and "f_duration_minutes (sessionForm ss) = Some d"
    and "\<bar>t + d * 60 * 1000\<bar> \<le> 8640000000000000"
  shows
    "(now < t \<or> t + d * 60 * 1000 < now \<longrightarrow>
        saveSession now ss = [Toast ToastError (CannotStartSession (DateAt t))]) \<and>
     (t \<le> now \<and> now \<le> t + d * 60 * 1000 \<longrightarrow>
        (\<exists>upd. su_status upd = Some ''in_progress'' \<and>
               saveSession now ss = [Api (UpdateSession (s_id es) upd)]))"
proof -
  have out: "outsideWindow now (getTime (DateAt t)) (sessionEnd (getTime (DateAt t)) (Some d)) =
      (now < t \<or> t + d * 60 * 1000 < now)"
    using assms(5,7) by (simp add: outsideWindow_def getTime_def sessionEnd_def timeClip_def)
  have rejected: "saveSession now ss = [Toast ToastError (CannotStartSession (DateAt t))]"
    if "now < t \<or> t + d * 60 * 1000 < now"
    using that assms(1-4,6) out by (simp add: saveSession_def Let_def)
  have accepted: "\<exists>upd. su_status upd = Some ''in_progress'' \<and>
               saveSession now ss = [Api (UpdateSession (s_id es) upd)]"
    if "t \<le> now \<and> now \<le> t + d * 60 * 1000"
  proof -
    from that have "\<not> (now < t \<or> t + d * 60 * 1000 < now)" by linarith
    then show ?thesis
      using assms(1-4,6) out by (simp add: saveSession_def Let_def)
  qed
  from rejected accepted show ?thesis by blast
qed

theorem saveSession_time_window_witness:
  "editingSession editView = Some scheduledSession \<and>
   f_status (sessionForm editView) = ''in_progress'' \<and>
   s_status scheduledSession \<noteq> Some ''in_progress'' \<and>
   saveSession 2400000 editView = [Toast ToastError (CannotStartSession (DateAt 0))] \<and>
   (\<exists>upd. su_status upd = Some ''in_progress'' \<and>
          saveSession 600000 editView = [Api (UpdateSession 7 upd)])"
proof -
  have a: "editingSession editView = Some scheduledSession"
    by (simp add: editView_def)
  have b: "f_status (sessionForm editView) = ''in_progress''"
    by (simp add: editView_def)
  have c: "s_status scheduledSession \<noteq> Some ''in_progress''"
    by (simp add: scheduledSession_def)
  have d: "js_or_date (f_session_date (sessionForm editView))
             (js_or_date (originalSessionDate editView) (s_session_date scheduledSession)) = DateAt 0"
    by (simp add: editView_def js_or_date_def)
  have v: "\<bar>0 :: int\<bar> \<le> 8640000000000000"
    by simp
  have e: "f_duration_minutes (sessionForm editView) = Some 30"
    by (simp add: editView_def)
  have u: "\<bar>(0 :: int) + 30 * 60 * 1000\<bar> \<le> 8640000000000000"
    by simp
  have i: "s_id scheduledSession = 7"
    by (simp add: scheduledSession_def)
  from saveSession_time_window [OF a b c d v e u, of 2400000]
  have late: "saveSession 2400000 editView = [Toast ToastError (CannotStartSession (DateAt 0))]"
    by simp
  from saveSession_time_window [OF a b c d v e u, of 600000]
  have early: "\<exists>upd. su_status upd = Some ''in_progress'' \<and>
          saveSession 600000 editView = [Api (UpdateSession 7 upd)]"
    unfolding i by simp
  from a b c late early show ?thesis by blast
qed

text \<open>
  Session 7 is scheduled at instant 0 for 30 minutes, and the clock shows minute 40.
  The form rejects the change. The start button of the sessions view sends its
  request, and so does the start button of the dashboard, whose callback writes the
  status in progress; \<open>changeSessionStatus\<close> sends the same update that the form
  held back. With the duration left blank in the form, the form sends the update
  too.
\<close>

theorem startSession_ungated_counterexample:
  "outsideWindow 2400000 (getTime (s_session_date scheduledSession))
     (sessionEnd (getTime (s_session_date scheduledSession))
        (Some (s_duration_minutes scheduledSession))) \<and>
   saveSession 2400000 editView = [Toast ToastError (CannotStartSession (DateAt 0))] \<and>
   startSession scheduledSession = [Api (StartSession 7)] \<and>
   sessionStarted = [Toast ToastSuccess (Plain ''Session started!''), LoadSessions] \<and>
   dashboardStartSession scheduledSession = [Api (StartSession 7)] \<and>
   s_status (fst (dashboardSessionStarted scheduledSession)) = Some ''in_progress'' \<and>
   changeSessionStatus scheduledSession ''in_progress'' =
     [Api (UpdateSession 7 (statusUpdate ''in_progress''))] \<and>
   saveSession 2400000
     (editView\<lparr>sessionForm := (sessionForm editView)\<lparr>f_duration_minutes := None\<rparr>\<rparr>) =
     [Api (UpdateSession 7
        \<lparr>su_duration_minutes = None, su_session_date = Some (DateAt 0),
         su_status = Some ''in_progress''\<rparr>)]"
  by (simp add: outsideWindow_def getTime_def sessionEnd_def timeClip_def scheduledSession_def
      startSession_def sessionStarted_def dashboardStartSession_def dashboardSessionStarted_def
      changeSessionStatus_def saveSession_def editView_def sessionsView_def js_or_date_def Let_def)

text \<open>
  C10. \<open>openActivityFromSession\<close> tests the attempted trials of the record it is
  given. Called without a record, it looks the record up in the session's
  assignments after that test, and publishes the request with it whatever its
  count: here the assignment has 10 attempted trials and the request goes out. The
  same call with the record passed is refused.
\<close>

theorem openActivityFromSession_unchecked_record:
  "isInProgress (Some busySession) \<and>
   trials_attempted doneRecord = JsNumber 10 \<and>
   openActivityFromSession stringToNumber sSound (Some busySession) None sessionsView emptyRoot =
     (emptyRoot\<lparr>pendingActivity :=
         Some \<lparr>p_activity = sSound, p_client = Some anna, p_session = Some busySession,
               p_sessionActivityRecord = Some doneRecord\<rparr>\<rparr>,
      [Timeout 0 GoToActivities]) \<and>
   openActivityFromSession stringToNumber sSound (Some busySession) (Some doneRecord)
       sessionsView emptyRoot =
     (emptyRoot, [Toast ToastInfo (AlreadyCompleted 70)])"
  by (simp add: isInProgress_def busySession_def liveSession_def scheduledSession_def
      toLowerCase_def lower_char_def strip_underscore_space_def is_underscore_or_space_def
      doneRecord_def openActivityFromSession_def findClient_def findRecord_def
      sessionsView_def anna_def sSound_def Let_def)

text \<open>
  What holds of the publisher in general: nothing is published unless the session
  is in progress, the record that was passed (if any) does not have
  \<open>trials_attempted > 0\<close>, and the session's client is found; and then the request is
  published.
\<close>

lemma openActivityFromSession_publishes_iff:
  "(fst (openActivityFromSession stringToNumber act sess sessionActivityRecord ss r) \<noteq> r \<longrightarrow>
      isInProgress sess \<and>
      (\<forall>sa. sessionActivityRecord = Some sa \<longrightarrow> \<not> js_gt_zero stringToNumber (trials_attempted sa)) \<and>
      findClient ss (s_client_id (the sess)) \<noteq> None) \<and>
   (isInProgress sess \<and>
    (\<forall>sa. sessionActivityRecord = Some sa \<longrightarrow> \<not> js_gt_zero stringToNumber (trials_attempted sa)) \<and>
    findClient ss (s_client_id (the sess)) = Some cl \<longrightarrow>
      pendingActivity (fst (openActivityFromSession stringToNumber act sess sessionActivityRecord ss r)) =
        Some \<lparr>p_activity = act, p_client = Some cl, p_session = sess,
              p_sessionActivityRecord = findRecord act (the sess) sessionActivityRecord\<rparr>)"
  by (cases sess; cases sessionActivityRecord)
    (auto simp: openActivityFromSession_def Let_def isInProgress_def split: option.splits)

end
